theory Spec2Isabelle
  imports Complex_Main
begin

section \<open>JavaScript values that a fetched JSON payload can hold\<close>

text \<open>
  The three widgets (PiHoleTopQueries, PiHoleStats, PiHoleTraffic) work on values parsed
  by \<^verbatim>\<open>res.json()\<close>. A parsed value is never \<^verbatim>\<open>undefined\<close>; reading a property
  yields \<^verbatim>\<open>undefined\<close> when it is missing, which is \<open>None\<close> below. Numbers are the
  finite values a JSON literal denotes (a literal beyond the range of a double, which
  parses to \<^verbatim>\<open>Infinity\<close>, is outside this model). A string is the list of its code
  units. An object is the list of its own properties, each key once.
\<close>

datatype json =
    JNull
  | JBool bool
  | JNum rat
  | JStr string
  | JArr "json list"
  | JObj "(string \<times> json) list"

text \<open>What the widgets can throw or see rejected.\<close>

datatype error =
    Error string       \<comment> \<open>\<^verbatim>\<open>throw new Error(message)\<close>\<close>
  | TypeError          \<comment> \<open>a property read on \<^verbatim>\<open>null\<close>, or a call of something that is no function\<close>
  | FetchRejected      \<comment> \<open>the promise of \<^verbatim>\<open>fetch\<close> rejects\<close>
  | JsonRejected       \<comment> \<open>the promise of \<^verbatim>\<open>res.json()\<close> rejects\<close>
  | ChartError         \<comment> \<open>\<^verbatim>\<open>updateChart\<close> throws\<close>

text \<open>JavaScript truthiness of a parsed value, and of a value that may be undefined.\<close>

fun truthy :: "json \<Rightarrow> bool" where
  "truthy JNull = False"
| "truthy (JBool b) = b"
| "truthy (JNum x) = (x \<noteq> 0)"
| "truthy (JStr s) = (s \<noteq> [])"
| "truthy (JArr xs) = True"
| "truthy (JObj kvs) = True"

fun truthy_opt :: "json option \<Rightarrow> bool" where
  "truthy_opt None = False"
| "truthy_opt (Some v) = truthy v"

text \<open>
  \<open>js_prop v k\<close> is \<^verbatim>\<open>v.k\<close> for a value \<open>v\<close> that is not \<^verbatim>\<open>null\<close> and one of the keys
  the widgets read (session, sid, valid, message, top_sources, blocking, the four summary
  fields, the two history fields): none of them is a property of a primitive, of an array
  or of a prototype, so only an object can have it. On \<^verbatim>\<open>null\<close> the read throws:
  \<open>getp\<close>.
\<close>

fun js_prop :: "json \<Rightarrow> string \<Rightarrow> json option" where
  "js_prop (JObj kvs) k = map_of kvs k"
| "js_prop v k = None"

definition getp :: "json \<Rightarrow> string \<Rightarrow> error + json option" where
  "getp v k = (if v = JNull then Inl TypeError else Inr (js_prop v k))"

text \<open>\<^verbatim>\<open>typeof v === 'object'\<close> and \<^verbatim>\<open>Array.isArray(v)\<close>.\<close>

fun typeof_object :: "json \<Rightarrow> bool" where
  "typeof_object JNull = True"
| "typeof_object (JArr xs) = True"
| "typeof_object (JObj kvs) = True"
| "typeof_object v = False"

fun isArray :: "json \<Rightarrow> bool" where
  "isArray (JArr xs) = True"
| "isArray v = False"

text \<open>\<^verbatim>\<open>obj.k = v\<close> on an object: an existing property keeps its place.\<close>

fun set_prop :: "(string \<times> json) list \<Rightarrow> string \<Rightarrow> json \<Rightarrow> (string \<times> json) list" where
  "set_prop [] k v = [(k, v)]"
| "set_prop ((k', v') # kvs) k v =
     (if k' = k then (k, v) # kvs else (k', v') # set_prop kvs k v)"

section \<open>Decimal rendering of a count\<close>

definition digit_char :: "nat \<Rightarrow> char" where
  "digit_char d = ''0123456789'' ! d"

fun show_nat :: "nat \<Rightarrow> string" where
  "show_nat n = (if n < 10 then [digit_char n] else show_nat (n div 10) @ [digit_char (n mod 10)])"

declare show_nat.simps [simp del]

section \<open>The network, and a cycle's steps\<close>

text \<open>
  A request as \<^verbatim>\<open>fetch\<close> receives it: the header values are the JavaScript values put
  into the header object, the body is the value given to \<^verbatim>\<open>JSON.stringify\<close>.
  A response either never arrives (the promise rejects) or carries \<^verbatim>\<open>ok\<close> and a body
  that parses to a value or does not parse.
\<close>

record request =
  http_method :: string
  url :: string
  headers :: "(string \<times> json) list"
  body :: "json option"

datatype response = Rejected | Response bool "json option"

type_synonym network = "request \<Rightarrow> response"

text \<open>
  A step of a refresh cycle ends in an error or a value and has issued requests, in order.
\<close>

type_synonym 'a step = "(error + 'a) \<times> request list"

definition step_return :: "'a \<Rightarrow> 'a step" where
  "step_return x = (Inr x, [])"

definition step_throw :: "error \<Rightarrow> 'a step" where
  "step_throw e = (Inl e, [])"

definition step_bind :: "'a step \<Rightarrow> ('a \<Rightarrow> 'b step) \<Rightarrow> 'b step" where
  "step_bind m f =
     (case m of
        (Inl e, sent) \<Rightarrow> (Inl e, sent)
      | (Inr x, sent) \<Rightarrow> (case f x of (r, sent') \<Rightarrow> (r, sent @ sent')))"

text \<open>\<^verbatim>\<open>await fetch(url, init)\<close> and \<^verbatim>\<open>await res.json()\<close>.\<close>

definition fetch :: "network \<Rightarrow> request \<Rightarrow> (bool \<times> json option) step" where
  "fetch net req =
     (case net req of
        Rejected \<Rightarrow> (Inl FetchRejected, [req])
      | Response ok parsed \<Rightarrow> (Inr (ok, parsed), [req]))"

definition res_json :: "bool \<times> json option \<Rightarrow> json step" where
  "res_json res = (case snd res of None \<Rightarrow> step_throw JsonRejected | Some v \<Rightarrow> step_return v)"

definition get_request :: "string \<Rightarrow> (string \<times> json) list \<Rightarrow> request" where
  "get_request u hs = \<lparr>http_method = ''GET'', url = u, headers = hs, body = None\<rparr>"

text \<open>
  The pattern of every statistics call:
  \<^verbatim>\<open>const res = await fetch(url, { headers }); if (!res.ok) throw new Error(msg); await res.json()\<close>.
\<close>

definition fetch_json :: "network \<Rightarrow> string \<Rightarrow> string \<Rightarrow> (string \<times> json) list \<Rightarrow> json step" where
  "fetch_json net msg u hs =
     step_bind (fetch net (get_request u hs)) (\<lambda>res.
       if \<not> fst res then step_throw (Error msg) else res_json res)"

section \<open>Configuration\<close>

record options =
  hostname :: string
  apiKey :: "string option"
  count :: "int option"
  hideChart :: bool

text \<open>\<^verbatim>\<open>this.options.hostname.replace(/\/+$/, '')\<close>\<close>

definition strip_slashes :: "string \<Rightarrow> string" where
  "strip_slashes s = rev (dropWhile (\<lambda>c. c = CHR ''/'') (rev s))"

definition baseUrl :: "options \<Rightarrow> string" where
  "baseUrl opts = strip_slashes (hostname opts)"

text \<open>\<^verbatim>\<open>this.options.apiKey || ''\<close>\<close>

definition password :: "options \<Rightarrow> string" where
  "password opts = (case apiKey opts of None \<Rightarrow> [] | Some k \<Rightarrow> k)"

text \<open>
  The computed property \<^verbatim>\<open>count\<close> of PiHoleTopQueries: the configured integer when it is
  positive, 10 otherwise. The configured count is an integer that a double holds exactly
  and that prints in plain decimal digits (below 9007199254740992); beyond that
  \<^verbatim>\<open>parseInt\<close> and the template literal give another address than this one.
\<close>

definition count_of :: "options \<Rightarrow> nat" where
  "count_of opts = (case count opts of None \<Rightarrow> 10 | Some c \<Rightarrow> if c > 0 then nat c else 10)"

section \<open>Authentication\<close>

text \<open>
  The same block opens \<^verbatim>\<open>fetchData\<close> in the three widgets; only the message of the
  thrown error differs. The value is \<^verbatim>\<open>sid\<close> as the rest of the cycle sees it.
\<close>

definition auth_request :: "string \<Rightarrow> string \<Rightarrow> request" where
  "auth_request base pw =
     \<lparr>http_method = ''POST'', url = base @ ''/api/auth'',
      headers = [(''Content-Type'', JStr ''application/json'')],
      body = Some (JObj [(''password'', JStr pw)])\<rparr>"

definition read_session :: "string \<Rightarrow> json \<Rightarrow> json step" where
  "read_session msg authData =
     (case getp authData ''session'' of
        Inl e \<Rightarrow> step_throw e
      | Inr session \<Rightarrow>
          (case session of
             None \<Rightarrow> step_throw (Error msg)
           | Some s \<Rightarrow>
               if \<not> truthy s then step_throw (Error msg)
               else
                 (case js_prop s ''sid'' of
                    None \<Rightarrow> step_throw (Error msg)
                  | Some sid \<Rightarrow>
                      if sid = JNull \<and> truthy_opt (js_prop s ''valid'')
                           \<and> js_prop s ''message'' = Some (JStr ''no password set'')
                      then step_return JNull
                      else step_return sid)))"

definition authenticate :: "string \<Rightarrow> network \<Rightarrow> string \<Rightarrow> string \<Rightarrow> json step" where
  "authenticate msg net base pw =
     (if pw \<noteq> [] then
        step_bind (fetch net (auth_request base pw)) (\<lambda>authRes.
        step_bind (res_json authRes) (\<lambda>authData.
          read_session msg authData))
      else step_return JNull)"

text \<open>
  \<^verbatim>\<open>sid ? { 'Accept': 'application/json', 'sid': sid } : { 'Accept': 'application/json' }\<close>
\<close>

definition stat_headers :: "json \<Rightarrow> (string \<times> json) list" where
  "stat_headers sid =
     (if truthy sid then [(''Accept'', JStr ''application/json''), (''sid'', sid)]
      else [(''Accept'', JStr ''application/json'')])"

section \<open>PiHoleTopQueries\<close>

record top_data =
  top_ads :: json
  top_queries :: json

definition blockedUrl :: "options \<Rightarrow> string" where
  "blockedUrl opts =
     baseUrl opts @ ''/api/stats/top_domains?blocked=true&count='' @ show_nat (count_of opts)"

definition allowedUrl :: "options \<Rightarrow> string" where
  "allowedUrl opts =
     baseUrl opts @ ''/api/stats/top_domains?blocked=false&count='' @ show_nat (count_of opts)"

text \<open>
  Lines 89 to 98: the guard on the two payloads, then the two assignments. The guard reads
  \<^verbatim>\<open>blockedData.top_sources\<close> only when \<^verbatim>\<open>blockedData\<close> is not \<^verbatim>\<open>null\<close>.
\<close>

definition store_rankings :: "json \<Rightarrow> json \<Rightarrow> top_data \<Rightarrow> top_data step" where
  "store_rankings blockedData allowedData d =
     (if blockedData = JNull \<or> truthy_opt (js_prop blockedData ''top_sources'')
           \<or> allowedData = JNull
      then step_throw (Error ''Expected data was not returned from Pi-Hole'')
      else step_return
        (d\<lparr>top_ads :=
              (if typeof_object blockedData \<and> \<not> isArray blockedData then blockedData
               else JObj []),
           top_queries :=
              (if typeof_object allowedData \<and> \<not> isArray allowedData then allowedData
               else JObj [])\<rparr>))"

text \<open>The \<^verbatim>\<open>try\<close> block of \<^verbatim>\<open>fetchData\<close>.\<close>

definition PiHoleTopQueries_try :: "network \<Rightarrow> options \<Rightarrow> top_data \<Rightarrow> top_data step" where
  "PiHoleTopQueries_try net opts d =
     step_bind
       (authenticate ''Authentication failed: no session ID'' net (baseUrl opts) (password opts))
       (\<lambda>sid.
     step_bind
       (fetch_json net ''Failed to fetch top blocked domains'' (blockedUrl opts) (stat_headers sid))
       (\<lambda>blockedData.
     step_bind
       (fetch_json net ''Failed to fetch top allowed domains'' (allowedUrl opts) (stat_headers sid))
       (\<lambda>allowedData.
     store_rankings blockedData allowedData d)))"

text \<open>
  \<^verbatim>\<open>fetchData\<close>: the \<^verbatim>\<open>try\<close> block, and the \<^verbatim>\<open>catch\<close> that empties both mappings
  and throws the error again. The result is the error (if any), the widget's data after
  the cycle and the requests issued. \<open>d\<close> is the data before the cycle. The base address is
  computed before the \<^verbatim>\<open>try\<close>; \<open>hostname\<close> is a string, so this does not throw.

  In the three widgets alike, nothing is awaited between the first assignment to the data
  and the end of the \<^verbatim>\<open>try\<close> block, and the \<^verbatim>\<open>catch\<close> assigns every field: what
  the \<^verbatim>\<open>try\<close> block had assigned before it threw is overwritten in the same run. The
  \<^verbatim>\<open>try\<close> block of the model therefore yields the data only when it completes.
\<close>

definition PiHoleTopQueries_fetchData ::
    "network \<Rightarrow> options \<Rightarrow> top_data \<Rightarrow> error option \<times> top_data \<times> request list" where
  "PiHoleTopQueries_fetchData net opts d =
     (case PiHoleTopQueries_try net opts d of
        (Inr d', sent) \<Rightarrow> (None, d', sent)
      | (Inl err, sent) \<Rightarrow> (Some err, d\<lparr>top_ads := JObj [], top_queries := JObj []\<rparr>, sent))"

section \<open>PiHoleStats\<close>

text \<open>
  The status and summary widget is the second component of PiHoleTopQueries.vue; the line
  numbers are those of that file.
\<close>

definition summaryUrl :: "options \<Rightarrow> string" where
  "summaryUrl opts = baseUrl opts @ ''/api/stats/summary''"

definition statusUrl :: "options \<Rightarrow> string" where
  "statusUrl opts = baseUrl opts @ ''/api/dns/blocking''"

text \<open>
  \<^verbatim>\<open>summaryJson.k = v\<close>. It is reached only after the four fields were found defined,
  so on an object.
\<close>

fun assign_prop :: "json \<Rightarrow> string \<Rightarrow> json \<Rightarrow> json" where
  "assign_prop (JObj kvs) k v = JObj (set_prop kvs k v)"
| "assign_prop w k v = w"

text \<open>
  Lines 249 to 264: the check of the summary, the status derived from \<^verbatim>\<open>blocking\<close>,
  the percentage formatted when it is a number. \<open>toFixed1 x\<close> stands for
  \<^verbatim>\<open>x.toFixed(1)\<close> of the JavaScript runtime.
\<close>

definition merge_status :: "(rat \<Rightarrow> string) \<Rightarrow> json \<Rightarrow> json \<Rightarrow> json step" where
  "merge_status toFixed1 summaryJson statusJson =
     (case getp summaryJson ''domains_being_blocked'' of
        Inl e \<Rightarrow> step_throw e
      | Inr domains_being_blocked \<Rightarrow>
          if domains_being_blocked = None
               \<or> js_prop summaryJson ''dns_queries_today'' = None
               \<or> js_prop summaryJson ''ads_blocked_today'' = None
               \<or> js_prop summaryJson ''ads_percentage_today'' = None
          then step_throw (Error ''Expected data was not returned from Pi-Hole'')
          else
            (case getp statusJson ''blocking'' of
               Inl e \<Rightarrow> step_throw e
             | Inr blocking \<Rightarrow>
                 (let statusEnabled = (case blocking of None \<Rightarrow> JBool True | Some b \<Rightarrow> b);
                      summary1 = assign_prop summaryJson ''status''
                        (JStr (if truthy statusEnabled then ''enabled'' else ''disabled''));
                      summary2 =
                        (case js_prop summary1 ''ads_percentage_today'' of
                           Some (JNum x) \<Rightarrow>
                             assign_prop summary1 ''ads_percentage_today'' (JStr (toFixed1 x))
                         | _ \<Rightarrow> summary1)
                  in step_return summary2)))"

text \<open>
  The \<^verbatim>\<open>try\<close> block. Both payloads are fetched before the summary is checked.
  \<open>updateChart\<close> is the chart collaborator: given the data it either returns or throws.
\<close>

definition PiHoleStats_try ::
    "network \<Rightarrow> (rat \<Rightarrow> string) \<Rightarrow> (json \<Rightarrow> error option) \<Rightarrow> options \<Rightarrow> json \<Rightarrow> json step" where
  "PiHoleStats_try net toFixed1 updateChart opts d =
     step_bind
       (authenticate ''Authentication failed: no session ID returned'' net
          (baseUrl opts) (password opts))
       (\<lambda>sid.
     step_bind (fetch_json net ''Failed to fetch summary data'' (summaryUrl opts) (stat_headers sid))
       (\<lambda>summaryJson.
     step_bind (fetch_json net ''Failed to fetch status'' (statusUrl opts) (stat_headers sid))
       (\<lambda>statusJson.
     step_bind (merge_status toFixed1 summaryJson statusJson)
       (\<lambda>d'.
     if \<not> hideChart opts then
       (case updateChart d' of None \<Rightarrow> step_return d' | Some e \<Rightarrow> step_throw e)
     else step_return d'))))"

definition PiHoleStats_fetchData ::
    "network \<Rightarrow> (rat \<Rightarrow> string) \<Rightarrow> (json \<Rightarrow> error option) \<Rightarrow> options \<Rightarrow> json
       \<Rightarrow> error option \<times> json \<times> request list" where
  "PiHoleStats_fetchData net toFixed1 updateChart opts d =
     (case PiHoleStats_try net toFixed1 updateChart opts d of
        (Inr d', sent) \<Rightarrow> (None, d', sent)
      | (Inl err, sent) \<Rightarrow> (Some err, JObj [], sent))"

section \<open>PiHoleTraffic\<close>

record traffic_data =
  labels :: "string list"
  queriesData :: json
  blockedData :: json

text \<open>
  The runtime's clock and local time: the two readings \<^verbatim>\<open>new Date()\<close> of lines 77 and
  85 in milliseconds, \<^verbatim>\<open>getHours\<close> and \<^verbatim>\<open>getMinutes\<close> of a time, and the time
  \<^verbatim>\<open>setHours(0, 0, 0, 0)\<close> moves a time to.
\<close>

record date_env =
  now :: int
  now_again :: int
  getHours :: "int \<Rightarrow> nat"
  getMinutes :: "int \<Rightarrow> nat"
  setHours0 :: "int \<Rightarrow> int"

definition historyUrl :: "options \<Rightarrow> string" where
  "historyUrl opts = baseUrl opts @ ''/api/history''"

text \<open>Lines 92 to 98: the label of the time \<open>t\<close>.\<close>

definition time_label :: "date_env \<Rightarrow> int \<Rightarrow> string" where
  "time_label env t =
     (let hours = getHours env t;
          minutes = getMinutes env t;
          ampm = (if hours \<ge> 12 then ''PM'' else ''AM'');
          hours = hours mod 12;
          hours = (if hours = 0 then 12 else hours);
          minuteStr = (if minutes < 10 then ''0'' @ show_nat minutes else show_nat minutes)
      in show_nat hours @ '':'' @ minuteStr @ '' '' @ ampm)"

text \<open>Lines 79 to 87.\<close>

definition start_time :: "date_env \<Rightarrow> nat \<Rightarrow> int" where
  "start_time env totalPoints =
     (if totalPoints = 144 then now env - 24 * 60 * 60 * 1000
      else setHours0 env (now_again env))"

text \<open>The loop of lines 88 to 100, from index \<open>i\<close> with the labels pushed so far.\<close>

function label_loop :: "date_env \<Rightarrow> int \<Rightarrow> nat \<Rightarrow> nat \<Rightarrow> string list \<Rightarrow> string list" where
  "label_loop env startTime totalPoints i ls =
     (if i < totalPoints
      then label_loop env startTime totalPoints (i + 1)
             (ls @ [time_label env (startTime + int i * 600000)])
      else ls)"
  by pat_completeness auto
termination
  by (relation "measure (\<lambda>(env, startTime, totalPoints, i, ls). totalPoints - i)") auto

declare label_loop.simps [simp del]

text \<open>
  \<^verbatim>\<open>series.length\<close> and \<^verbatim>\<open>series.slice(0, n)\<close>. Arrays and strings have both. A
  number, a boolean or an object that passed the truthiness check has no function
  \<^verbatim>\<open>slice\<close>: line 102 or 103 throws, whatever the loop pushed before.
\<close>

fun series_length :: "json \<Rightarrow> nat option" where
  "series_length (JArr xs) = Some (length xs)"
| "series_length (JStr s) = Some (length s)"
| "series_length v = None"

fun slice0 :: "json \<Rightarrow> nat \<Rightarrow> json" where
  "slice0 (JArr xs) n = JArr (take n xs)"
| "slice0 (JStr s) n = JStr (take n s)"
| "slice0 v n = v"

text \<open>Lines 70 to 103: what the specification calls reconstruction.\<close>

definition reconstruct :: "date_env \<Rightarrow> json \<Rightarrow> json \<Rightarrow> traffic_data \<Rightarrow> traffic_data step" where
  "reconstruct env domainsSeries adsSeries d =
     (case (series_length domainsSeries, series_length adsSeries) of
        (Some l1, Some l2) \<Rightarrow>
          (let totalPoints = min l1 l2;
               startTime = start_time env totalPoints
           in step_return
                (d\<lparr>labels := label_loop env startTime totalPoints 0 [],
                   queriesData := slice0 domainsSeries totalPoints,
                   blockedData := slice0 adsSeries totalPoints\<rparr>))
      | _ \<Rightarrow> step_throw TypeError)"

text \<open>
  The \<^verbatim>\<open>try\<close> block. The check of line 66 lets only truthy, hence defined, series
  through, so the last case of the inner distinction is never taken.
\<close>

definition PiHoleTraffic_try ::
    "network \<Rightarrow> date_env \<Rightarrow> (traffic_data \<Rightarrow> error option) \<Rightarrow> options \<Rightarrow> traffic_data
       \<Rightarrow> traffic_data step" where
  "PiHoleTraffic_try net env updateChart opts d =
     step_bind
       (authenticate ''Authentication failed: no session ID'' net (baseUrl opts) (password opts))
       (\<lambda>sid.
     step_bind (fetch_json net ''Failed to fetch history data'' (historyUrl opts) (stat_headers sid))
       (\<lambda>historyData.
     case getp historyData ''domains_over_time'' of
       Inl e \<Rightarrow> step_throw e
     | Inr domains_over_time \<Rightarrow>
         if \<not> truthy_opt domains_over_time
              \<or> \<not> truthy_opt (js_prop historyData ''ads_over_time'')
         then step_throw (Error ''Expected data was not returned from Pi-Hole'')
         else
           (case (domains_over_time, js_prop historyData ''ads_over_time'') of
              (Some domainsSeries, Some adsSeries) \<Rightarrow>
                step_bind (reconstruct env domainsSeries adsSeries d) (\<lambda>d'.
                  case updateChart d' of None \<Rightarrow> step_return d' | Some e \<Rightarrow> step_throw e)
            | _ \<Rightarrow> step_throw (Error ''Expected data was not returned from Pi-Hole''))))"

definition PiHoleTraffic_fetchData ::
    "network \<Rightarrow> date_env \<Rightarrow> (traffic_data \<Rightarrow> error option) \<Rightarrow> options \<Rightarrow> traffic_data
       \<Rightarrow> error option \<times> traffic_data \<times> request list" where
  "PiHoleTraffic_fetchData net env updateChart opts d =
     (case PiHoleTraffic_try net env updateChart opts d of
        (Inr d', sent) \<Rightarrow> (None, d', sent)
      | (Inl err, sent) \<Rightarrow>
          (Some err, d\<lparr>labels := [], queriesData := JArr [], blockedData := JArr []\<rparr>, sent))"

section \<open>An example appliance and configuration\<close>

text \<open>
  Concrete inputs for the instances proved below: an appliance that answers the login with
  \<open>authData\<close> and each statistics address with the payload listed for it, one that
  cannot be reached, the configuration of the specification's scenario with and without a
  secret, a clock in UTC, a chart that accepts the data and one that throws, and a
  rendering to one decimal.
\<close>

definition appliance :: "json \<Rightarrow> (string \<times> json) list \<Rightarrow> network" where
  "appliance authData routes req =
     (if http_method req = ''POST'' then Response True (Some authData)
      else case map_of routes (url req) of
             None \<Rightarrow> Response False None
           | Some v \<Rightarrow> Response True (Some v))"

definition pihole_local :: options where
  "pihole_local =
     \<lparr>hostname = ''http://pihole.local/'', apiKey = Some ''s3cr3t'', count = None,
      hideChart = True\<rparr>"

definition session_reply :: "json \<Rightarrow> bool \<Rightarrow> string \<Rightarrow> json" where
  "session_reply sid valid message =
     JObj [(''session'',
            JObj [(''sid'', sid), (''valid'', JBool valid), (''message'', JStr message)])]"

definition top_routes :: "json \<Rightarrow> json \<Rightarrow> (string \<times> json) list" where
  "top_routes b a =
     [(''http://pihole.local/api/stats/top_domains?blocked=true&count=10'', b),
      (''http://pihole.local/api/stats/top_domains?blocked=false&count=10'', a)]"

definition stats_routes :: "json \<Rightarrow> json \<Rightarrow> (string \<times> json) list" where
  "stats_routes summary status =
     [(''http://pihole.local/api/stats/summary'', summary),
      (''http://pihole.local/api/dns/blocking'', status)]"

definition history_routes :: "json \<Rightarrow> (string \<times> json) list" where
  "history_routes history = [(''http://pihole.local/api/history'', history)]"

definition utc_clock :: "int \<Rightarrow> date_env" where
  "utc_clock t0 =
     \<lparr>now = t0, now_again = t0,
      getHours = (\<lambda>t. nat ((t div 3600000) mod 24)),
      getMinutes = (\<lambda>t. nat ((t div 60000) mod 60)),
      setHours0 = (\<lambda>t. t - t mod 86400000)\<rparr>"

definition chart_ready :: "'d \<Rightarrow> error option" where
  "chart_ready d = None"

definition chart_missing :: "'d \<Rightarrow> error option" where
  "chart_missing d = Some ChartError"

definition one_decimal :: "rat \<Rightarrow> string" where
  "one_decimal x =
     (let n = nat \<lfloor>\<bar>x\<bar> * 10 + 1 / 2\<rfloor>
      in (if x < 0 then ''-'' else []) @ show_nat (n div 10) @ ''.'' @ show_nat (n mod 10))"

definition full_summary :: json where
  "full_summary =
     JObj [(''domains_being_blocked'', JNum 120000), (''dns_queries_today'', JNum 0),
           (''ads_blocked_today'', JNum 0), (''ads_percentage_today'', JNum 0)]"

definition pihole_open :: options where
  "pihole_open = pihole_local\<lparr>apiKey := None\<rparr>"

definition summary_without_percentage :: json where
  "summary_without_percentage =
     JObj [(''domains_being_blocked'', JNum 120000), (''dns_queries_today'', JNum 0),
           (''ads_blocked_today'', JNum 0)]"

definition history_of :: "json list \<Rightarrow> json list \<Rightarrow> json" where
  "history_of domains ads = JObj [(''domains_over_time'', JArr domains), (''ads_over_time'', JArr ads)]"

definition unreachable :: network where
  "unreachable req = Rejected"

section \<open>Steps of a cycle\<close>

lemma step_bind_Inl [simp]: "step_bind (Inl e, sent) f = (Inl e, sent)"
  by (simp add: step_bind_def)

lemma step_bind_Inr [simp]: "step_bind (Inr x, sent) f = (fst (f x), sent @ snd (f x))"
  by (simp add: step_bind_def split: prod.splits)

lemma step_bind_return [simp]: "step_bind (step_return x) f = f x"
  by (simp add: step_return_def)

lemma step_bind_throw [simp]: "step_bind (step_throw e) f = step_throw e"
  by (simp add: step_throw_def)

lemma step_cases:
  obtains e sent where "m = (Inl e, sent)" | x sent where "m = (Inr x, sent)"
proof (cases m)
  case (Pair r sent)
  then show thesis using that by (cases r) auto
qed

lemma step_bind_silent:
  "snd m = [] \<Longrightarrow> (\<And>x. snd (f x) = []) \<Longrightarrow> snd (step_bind m f) = []"
  by (cases m rule: step_cases) auto

lemma fetch_json_ok:
  "net (get_request u hs) = Response True (Some v)
     \<Longrightarrow> fetch_json net msg u hs = (Inr v, [get_request u hs])"
  by (simp add: fetch_json_def fetch_def res_json_def step_return_def)

lemma fetch_json_sent: "snd (fetch_json net msg u hs) = [get_request u hs]"
  by (simp add: fetch_json_def fetch_def res_json_def step_return_def step_throw_def
        split: response.splits option.splits)

lemma fetch_json_cases:
  obtains e where "fetch_json net msg u hs = (Inl e, [get_request u hs])"
  | v where "fetch_json net msg u hs = (Inr v, [get_request u hs])"
  using fetch_json_sent [of net msg u hs]
  by (cases "fetch_json net msg u hs" rule: step_cases) auto

section \<open>Property reads and decimal digits\<close>

lemma js_prop_Some_obj: "js_prop s k = Some v \<Longrightarrow> \<exists>kvs. s = JObj kvs"
  by (cases s) auto

lemma js_prop_Some_truthy: "js_prop s k = Some v \<Longrightarrow> truthy s"
  by (cases s) auto

lemma map_of_set_prop: "map_of (set_prop kvs k v) k' = (if k' = k then Some v else map_of kvs k')"
  by (induction kvs) auto

lemma show_nat_digit: "n < 10 \<Longrightarrow> show_nat n = [digit_char n]"
  by (simp add: show_nat.simps)

lemma show_nat_two:
  "10 \<le> n \<Longrightarrow> n < 100 \<Longrightarrow> show_nat n = [digit_char (n div 10), digit_char (n mod 10)]"
  by (subst show_nat.simps) (simp add: show_nat_digit)

section \<open>The authentication block\<close>

lemma read_session_fst:
  "fst (read_session msg authData) =
     (if authData = JNull then Inl TypeError
      else case js_prop authData ''session'' of
             None \<Rightarrow> Inl (Error msg)
           | Some s \<Rightarrow> (case js_prop s ''sid'' of None \<Rightarrow> Inl (Error msg) | Some sid \<Rightarrow> Inr sid))"
  by (auto simp: read_session_def getp_def step_throw_def step_return_def
        dest: js_prop_Some_truthy split: option.splits)

lemma read_session_snd [simp]: "snd (read_session msg authData) = []"
  by (auto simp: read_session_def getp_def step_throw_def step_return_def split: option.splits)

lemma authenticate_no_secret: "authenticate msg net base [] = (Inr JNull, [])"
  by (simp add: authenticate_def step_return_def)

lemma password_empty: "apiKey opts = None \<or> apiKey opts = Some [] \<Longrightarrow> password opts = []"
  by (auto simp: password_def)

section \<open>The three cycles unfolded\<close>

lemma store_rankings_sent [simp]: "snd (store_rankings b a d) = []"
  by (simp add: store_rankings_def step_return_def step_throw_def)

lemma PiHoleTopQueries_try_fetched:
  assumes "authenticate ''Authentication failed: no session ID'' net (baseUrl opts) (password opts)
             = (Inr sid, sent0)"
    and "net (get_request (blockedUrl opts) (stat_headers sid)) = Response True (Some b)"
    and "net (get_request (allowedUrl opts) (stat_headers sid)) = Response True (Some a)"
  shows "PiHoleTopQueries_try net opts d
      = (fst (store_rankings b a d),
         sent0 @ [get_request (blockedUrl opts) (stat_headers sid),
                  get_request (allowedUrl opts) (stat_headers sid)])"
  using assms by (simp add: PiHoleTopQueries_try_def fetch_json_ok)

lemma merge_status_sent [simp]: "snd (merge_status toFixed1 summaryJson statusJson) = []"
  by (simp add: merge_status_def getp_def step_throw_def step_return_def Let_def
        split: option.splits json.splits)

lemma chart_sent [simp]:
  "snd (case c of None \<Rightarrow> step_return x | Some e \<Rightarrow> step_throw e) = []"
  by (simp add: step_throw_def step_return_def split: option.splits)

lemma stats_tail_sent [simp]:
  "snd (step_bind (merge_status toFixed1 v va)
          (\<lambda>d'. if c then (case updateChart d' of None \<Rightarrow> step_return d' | Some e \<Rightarrow> step_throw e)
                else step_return d')) = []"
  by (rule step_bind_silent) (simp_all add: step_return_def)

lemma PiHoleStats_try_fetched:
  assumes "authenticate ''Authentication failed: no session ID returned'' net (baseUrl opts)
             (password opts) = (Inr sid, sent0)"
    and "net (get_request (summaryUrl opts) (stat_headers sid)) = Response True (Some summaryJson)"
    and "net (get_request (statusUrl opts) (stat_headers sid)) = Response True (Some statusJson)"
  shows "PiHoleStats_try net toFixed1 updateChart opts d
      = (fst (step_bind (merge_status toFixed1 summaryJson statusJson)
                (\<lambda>d'. if \<not> hideChart opts
                      then (case updateChart d' of None \<Rightarrow> step_return d' | Some e \<Rightarrow> step_throw e)
                      else step_return d')),
         sent0 @ [get_request (summaryUrl opts) (stat_headers sid),
                  get_request (statusUrl opts) (stat_headers sid)])"
  using assms by (simp add: PiHoleStats_try_def fetch_json_ok)

lemma merge_status_missing:
  assumes "\<exists>k \<in> set [''domains_being_blocked'', ''dns_queries_today'', ''ads_blocked_today'',
                      ''ads_percentage_today'']. js_prop summaryJson k = None"
  shows "fst (merge_status toFixed1 summaryJson statusJson)
           = (if summaryJson = JNull then Inl TypeError
              else Inl (Error ''Expected data was not returned from Pi-Hole''))"
  using assms by (auto simp: merge_status_def getp_def step_throw_def)

lemma merge_status_present:
  assumes "\<forall>k \<in> set [''domains_being_blocked'', ''dns_queries_today'', ''ads_blocked_today'',
                      ''ads_percentage_today'']. js_prop summaryJson k \<noteq> None"
    and "statusJson \<noteq> JNull"
  shows "\<exists>d'. merge_status toFixed1 summaryJson statusJson = (Inr d', [])
           \<and> js_prop d' ''status''
               = Some (JStr (case js_prop statusJson ''blocking'' of
                               None \<Rightarrow> ''enabled''
                             | Some b \<Rightarrow> if truthy b then ''enabled'' else ''disabled''))"
proof -
  from assms(1) obtain kvs where obj: "summaryJson = JObj kvs"
    by (cases summaryJson) auto
  show ?thesis
    using assms
    by (auto simp: obj merge_status_def getp_def step_return_def Let_def map_of_set_prop
          split: option.splits json.splits)
qed

lemma merge_status_error_iff:
  "fst (merge_status toFixed1 summaryJson statusJson)
       = Inl (Error ''Expected data was not returned from Pi-Hole'')
   \<longleftrightarrow> summaryJson \<noteq> JNull
       \<and> (\<exists>k \<in> set [''domains_being_blocked'', ''dns_queries_today'', ''ads_blocked_today'',
                      ''ads_percentage_today'']. js_prop summaryJson k = None)"
  by (auto simp: merge_status_def getp_def step_throw_def step_return_def Let_def
        split: option.splits json.splits)

lemma label_loop_map:
  "label_loop env st n i ls = ls @ map (\<lambda>j. time_label env (st + int j * 600000)) [i..<n]"
proof (induction env st n i ls rule: label_loop.induct)
  case (1 env st n i ls)
  show ?case
  proof (cases "i < n")
    case True
    with 1 show ?thesis
      by (subst label_loop.simps) (simp add: upt_conv_Cons)
  next
    case False
    then show ?thesis by (subst label_loop.simps) simp
  qed
qed

lemma reconstruct_sent [simp]: "snd (reconstruct env ds as d) = []"
  by (simp add: reconstruct_def step_throw_def step_return_def Let_def split: option.splits)

lemma traffic_tail_sent [simp]:
  "snd (step_bind (reconstruct env ds as d)
          (\<lambda>d'. case updateChart d' of None \<Rightarrow> step_return d' | Some e \<Rightarrow> step_throw e)) = []"
  by (rule step_bind_silent) simp_all

lemma reconstruct_arrays:
  "reconstruct env (JArr xs) (JArr ys) d
     = (Inr (d\<lparr>labels :=
                   map (\<lambda>i. time_label env
                              (start_time env (min (length xs) (length ys)) + int i * 600000))
                     [0..<min (length xs) (length ys)],
                 queriesData := JArr (take (min (length xs) (length ys)) xs),
                 blockedData := JArr (take (min (length xs) (length ys)) ys)\<rparr>), [])"
  by (simp add: reconstruct_def label_loop_map step_return_def Let_def)

lemma PiHoleTraffic_fetched:
  assumes "authenticate ''Authentication failed: no session ID'' net (baseUrl opts) (password opts)
             = (Inr sid, sent0)"
    and "net (get_request (historyUrl opts) (stat_headers sid)) = Response True (Some historyData)"
    and "js_prop historyData ''domains_over_time'' = Some (JArr xs)"
    and "js_prop historyData ''ads_over_time'' = Some (JArr ys)"
  shows "PiHoleTraffic_fetchData net env updateChart opts d
     = (let d' = d\<lparr>labels :=
                   map (\<lambda>i. time_label env
                              (start_time env (min (length xs) (length ys)) + int i * 600000))
                     [0..<min (length xs) (length ys)],
                 queriesData := JArr (take (min (length xs) (length ys)) xs),
                 blockedData := JArr (take (min (length xs) (length ys)) ys)\<rparr>
        in case updateChart d' of
             None \<Rightarrow> (None, d', sent0 @ [get_request (historyUrl opts) (stat_headers sid)])
           | Some e \<Rightarrow>
               (Some e, d\<lparr>labels := [], queriesData := JArr [], blockedData := JArr []\<rparr>,
                sent0 @ [get_request (historyUrl opts) (stat_headers sid)]))"
proof -
  have nn: "historyData \<noteq> JNull" using assms(3) by auto
  show ?thesis
    using assms nn
    by (simp add: PiHoleTraffic_fetchData_def PiHoleTraffic_try_def fetch_json_ok getp_def
          reconstruct_arrays Let_def step_return_def step_throw_def split: option.splits)
qed

section \<open>The requests of a cycle\<close>

lemma fetch_json_Inr_iff:
  "(\<exists>v. fst (fetch_json net msg u hs) = Inr v)
     \<longleftrightarrow> (\<exists>v. net (get_request u hs) = Response True (Some v))"
  by (auto simp: fetch_json_def fetch_def res_json_def step_return_def step_throw_def
        split: response.splits option.splits if_splits)

lemma PiHoleTopQueries_sent_exact:
  assumes "authenticate ''Authentication failed: no session ID'' net (baseUrl opts) (password opts)
             = (Inr sid, sent0)"
  shows "snd (PiHoleTopQueries_try net opts d)
     = sent0 @ get_request (blockedUrl opts) (stat_headers sid)
         # (if \<exists>b. net (get_request (blockedUrl opts) (stat_headers sid)) = Response True (Some b)
            then [get_request (allowedUrl opts) (stat_headers sid)] else [])"
proof (cases rule: fetch_json_cases [of net "''Failed to fetch top blocked domains''"
         "blockedUrl opts" "stat_headers sid"])
  case (1 e)
  then have "\<not> (\<exists>b. net (get_request (blockedUrl opts) (stat_headers sid)) = Response True (Some b))"
    using fetch_json_Inr_iff [of net "''Failed to fetch top blocked domains''" "blockedUrl opts"
        "stat_headers sid"] by simp
  with 1 show ?thesis by (simp add: PiHoleTopQueries_try_def assms)
next
  case (2 b)
  then have "\<exists>b. net (get_request (blockedUrl opts) (stat_headers sid)) = Response True (Some b)"
    using fetch_json_Inr_iff [of net "''Failed to fetch top blocked domains''" "blockedUrl opts"
        "stat_headers sid"] by auto
  with 2 show ?thesis
    by (cases rule: fetch_json_cases [of net "''Failed to fetch top allowed domains''"
          "allowedUrl opts" "stat_headers sid"])
       (simp_all add: PiHoleTopQueries_try_def assms)
qed

lemma PiHoleStats_sent_exact:
  assumes "authenticate ''Authentication failed: no session ID returned'' net (baseUrl opts)
             (password opts) = (Inr sid, sent0)"
  shows "snd (PiHoleStats_try net toFixed1 updateChart opts d)
     = sent0 @ get_request (summaryUrl opts) (stat_headers sid)
         # (if \<exists>s. net (get_request (summaryUrl opts) (stat_headers sid)) = Response True (Some s)
            then [get_request (statusUrl opts) (stat_headers sid)] else [])"
proof (cases rule: fetch_json_cases [of net "''Failed to fetch summary data''"
         "summaryUrl opts" "stat_headers sid"])
  case (1 e)
  then have "\<not> (\<exists>s. net (get_request (summaryUrl opts) (stat_headers sid)) = Response True (Some s))"
    using fetch_json_Inr_iff [of net "''Failed to fetch summary data''" "summaryUrl opts"
        "stat_headers sid"] by simp
  with 1 show ?thesis by (simp add: PiHoleStats_try_def assms)
next
  case (2 s)
  then have "\<exists>s. net (get_request (summaryUrl opts) (stat_headers sid)) = Response True (Some s)"
    using fetch_json_Inr_iff [of net "''Failed to fetch summary data''" "summaryUrl opts"
        "stat_headers sid"] by auto
  with 2 show ?thesis
    by (cases rule: fetch_json_cases [of net "''Failed to fetch status''" "statusUrl opts"
          "stat_headers sid"])
       (simp_all add: PiHoleStats_try_def assms)
qed

lemma PiHoleTraffic_sent_exact:
  assumes "authenticate ''Authentication failed: no session ID'' net (baseUrl opts) (password opts)
             = (Inr sid, sent0)"
  shows "snd (PiHoleTraffic_try net env updateChart opts d)
     = sent0 @ [get_request (historyUrl opts) (stat_headers sid)]"
  by (cases rule: fetch_json_cases [of net "''Failed to fetch history data''" "historyUrl opts"
        "stat_headers sid"])
     (auto simp: PiHoleTraffic_try_def assms getp_def step_throw_def split: option.splits)

lemma fetchData_sent:
  "snd (snd (PiHoleTopQueries_fetchData net opts d1)) = snd (PiHoleTopQueries_try net opts d1)"
  "snd (snd (PiHoleStats_fetchData net toFixed1 chart1 opts d2)) = snd (PiHoleStats_try net toFixed1 chart1 opts d2)"
  "snd (snd (PiHoleTraffic_fetchData net env chart2 opts d3)) = snd (PiHoleTraffic_try net env chart2 opts d3)"
  by (auto simp: PiHoleTopQueries_fetchData_def PiHoleStats_fetchData_def PiHoleTraffic_fetchData_def
        split: prod.splits sum.splits)

section \<open>The example appliance at work\<close>

lemma baseUrl_pihole_local: "baseUrl pihole_local = ''http://pihole.local''"
  by (simp add: baseUrl_def strip_slashes_def pihole_local_def)

lemma password_pihole_local: "password pihole_local = ''s3cr3t''"
  by (simp add: password_def pihole_local_def)

lemma show_nat_10: "show_nat 10 = ''10''"
  by (simp add: show_nat_two digit_char_def)

lemma count_of_pihole_local: "count_of pihole_local = 10"
  by (simp add: count_of_def pihole_local_def)

lemma blockedUrl_pihole_local:
  "blockedUrl pihole_local = ''http://pihole.local/api/stats/top_domains?blocked=true&count=10''"
  by (simp add: blockedUrl_def baseUrl_pihole_local count_of_pihole_local show_nat_10)

lemma allowedUrl_pihole_local:
  "allowedUrl pihole_local = ''http://pihole.local/api/stats/top_domains?blocked=false&count=10''"
  by (simp add: allowedUrl_def baseUrl_pihole_local count_of_pihole_local show_nat_10)

lemma summaryUrl_pihole_local: "summaryUrl pihole_local = ''http://pihole.local/api/stats/summary''"
  by (simp add: summaryUrl_def baseUrl_pihole_local)

lemma statusUrl_pihole_local: "statusUrl pihole_local = ''http://pihole.local/api/dns/blocking''"
  by (simp add: statusUrl_def baseUrl_pihole_local)

lemma historyUrl_pihole_local: "historyUrl pihole_local = ''http://pihole.local/api/history''"
  by (simp add: historyUrl_def baseUrl_pihole_local)

lemma hideChart_pihole_local: "hideChart pihole_local"
  by (simp add: pihole_local_def)

lemma authenticate_appliance:
  "authenticate msg (appliance (session_reply (JStr ''abc'') True []) routes)
       (baseUrl pihole_local) (password pihole_local)
     = (Inr (JStr ''abc''), [auth_request ''http://pihole.local'' ''s3cr3t''])"
  by (simp add: baseUrl_pihole_local password_pihole_local authenticate_def fetch_def
        appliance_def auth_request_def res_json_def session_reply_def read_session_def getp_def
        step_return_def)

lemma appliance_blocked:
  "appliance au (top_routes b a) (get_request (blockedUrl pihole_local) hs)
     = Response True (Some b)"
  by (simp add: appliance_def get_request_def blockedUrl_pihole_local top_routes_def)

lemma appliance_allowed:
  "appliance au (top_routes b a) (get_request (allowedUrl pihole_local) hs)
     = Response True (Some a)"
  by (simp add: appliance_def get_request_def allowedUrl_pihole_local top_routes_def)

lemma appliance_summary:
  "appliance au (stats_routes summary status) (get_request (summaryUrl pihole_local) hs)
     = Response True (Some summary)"
  by (simp add: appliance_def get_request_def summaryUrl_pihole_local stats_routes_def)

lemma appliance_status:
  "appliance au (stats_routes summary status) (get_request (statusUrl pihole_local) hs)
     = Response True (Some status)"
  by (simp add: appliance_def get_request_def statusUrl_pihole_local stats_routes_def)

lemma appliance_history:
  "appliance au (history_routes history) (get_request (historyUrl pihole_local) hs)
     = Response True (Some history)"
  by (simp add: appliance_def get_request_def historyUrl_pihole_local history_routes_def)

lemma history_of_props:
  "js_prop (history_of domains ads) ''domains_over_time'' = Some (JArr domains)"
  "js_prop (history_of domains ads) ''ads_over_time'' = Some (JArr ads)"
  by (simp_all add: history_of_def)

lemma full_summary_present:
  "\<forall>k \<in> set [''domains_being_blocked'', ''dns_queries_today'', ''ads_blocked_today'',
               ''ads_percentage_today'']. js_prop full_summary k \<noteq> None"
  by (simp add: full_summary_def)

lemma chart_ready_always: "\<forall>d'. chart_ready d' = None"
  by (simp add: chart_ready_def)

lemma pihole_open_simps:
  "apiKey pihole_open = None" "baseUrl pihole_open = ''http://pihole.local''"
  "hideChart pihole_open" "password pihole_open = []"
  by (simp_all add: pihole_open_def pihole_local_def baseUrl_def strip_slashes_def password_def)

lemma pihole_open_urls:
  "blockedUrl pihole_open = blockedUrl pihole_local"
  "allowedUrl pihole_open = allowedUrl pihole_local"
  "summaryUrl pihole_open = summaryUrl pihole_local"
  "statusUrl pihole_open = statusUrl pihole_local"
  "historyUrl pihole_open = historyUrl pihole_local"
  by (simp_all add: blockedUrl_def allowedUrl_def summaryUrl_def statusUrl_def historyUrl_def
        baseUrl_def count_of_def pihole_open_def)

section \<open>Authentication: which responses fail\<close>

text \<open>
  Claim C2, as amended. A login is attempted with a non-empty secret and answered by a
  parsed value \<open>authData\<close>. If \<open>authData\<close> is \<^verbatim>\<open>null\<close>, reading its session throws a
  TypeError. Otherwise authentication fails with the "no session ID" error exactly when
  the response has no \<open>session\<close> property whose value has a \<open>sid\<close> property (a session
  that is not an object has none). Whenever \<open>sid\<close> is present, authentication succeeds
  with that value as the token: a \<^verbatim>\<open>null\<close> sid gives the token none whatever \<open>valid\<close>
  and \<open>message\<close> say, so also in the special case of "no password set".
\<close>

theorem authenticate_outcome:
  assumes "pw \<noteq> []" and "net (auth_request base pw) = Response ok (Some authData)"
  shows "(authData = JNull \<longrightarrow> fst (authenticate msg net base pw) = Inl TypeError)
       \<and> (authData \<noteq> JNull \<longrightarrow>
            (fst (authenticate msg net base pw) = Inl (Error msg)
               \<longleftrightarrow> (\<forall>s. js_prop authData ''session'' = Some s \<longrightarrow> js_prop s ''sid'' = None)))
       \<and> (\<forall>s sid. js_prop authData ''session'' = Some s \<and> js_prop s ''sid'' = Some sid
            \<longrightarrow> fst (authenticate msg net base pw) = Inr sid)"
proof -
  have "fst (authenticate msg net base pw) = fst (read_session msg authData)"
    using assms by (simp add: authenticate_def fetch_def res_json_def step_return_def)
  then show ?thesis
    by (auto simp: read_session_fst dest: js_prop_Some_obj split: option.splits)
qed

text \<open>
  The instance of the special case: secret \<open>s3cr3t\<close>, response
  \<^verbatim>\<open>{session: {sid: null, valid: true, message: "no password set"}}\<close>.
\<close>

theorem authenticate_outcome_witness:
  "''s3cr3t'' \<noteq> []
   \<and> appliance (session_reply JNull True ''no password set'') []
         (auth_request ''http://pihole.local'' ''s3cr3t'')
       = Response True (Some (session_reply JNull True ''no password set''))
   \<and> fst (authenticate ''Authentication failed: no session ID''
          (appliance (session_reply JNull True ''no password set'') [])
          ''http://pihole.local'' ''s3cr3t'') = Inr JNull"
proof -
  have h1: "''s3cr3t'' \<noteq> []" by simp
  have h2: "appliance (session_reply JNull True ''no password set'') []
         (auth_request ''http://pihole.local'' ''s3cr3t'')
       = Response True (Some (session_reply JNull True ''no password set''))"
    by (simp add: appliance_def auth_request_def)
  have h3: "js_prop (session_reply JNull True ''no password set'') ''session''
       = Some (JObj [(''sid'', JNull), (''valid'', JBool True),
                     (''message'', JStr ''no password set'')])"
    by (simp add: session_reply_def)
  have h4: "js_prop (JObj [(''sid'', JNull), (''valid'', JBool True),
                           (''message'', JStr ''no password set'')]) ''sid'' = Some JNull"
    by simp
  from authenticate_outcome [where net = "appliance (session_reply JNull True ''no password set'') []"
      and msg = "''Authentication failed: no session ID''", OF h1 h2] h3 h4 h1 h2
  show ?thesis by blast
qed

text \<open>
  Against the claim as it was stated: the response
  \<^verbatim>\<open>{session: {sid: null, valid: false, message: "password incorrect"}}\<close> has a
  \<^verbatim>\<open>null\<close> token and is neither valid nor "no password set", yet authentication does
  not fail: it goes on with the token none.
\<close>

theorem authenticate_null_sid_counterexample:
  "fst (authenticate ''Authentication failed: no session ID''
          (appliance (session_reply JNull False ''password incorrect'') [])
          ''http://pihole.local'' ''s3cr3t'') = Inr JNull"
  by (simp add: authenticate_def fetch_def appliance_def auth_request_def res_json_def
        session_reply_def read_session_def getp_def step_return_def)

section \<open>Top domains: the shape of the payloads\<close>

text \<open>
  Claim C1, as amended. Both rankings were fetched, \<open>b\<close> for the blocked and \<open>a\<close> for
  the allowed category. If either payload is \<^verbatim>\<open>null\<close>, the cycle fails with the
  "Expected data" error and both mappings are emptied. If neither is \<^verbatim>\<open>null\<close> and
  \<open>b\<close> has no truthy \<open>top_sources\<close>, the cycle succeeds, and a payload that is not an
  object (an array, a string, a number, a boolean) is replaced by the empty mapping for its
  category, while an object is used as it is.
\<close>

theorem top_domains_shape:
  assumes "authenticate ''Authentication failed: no session ID'' net (baseUrl opts) (password opts)
             = (Inr sid, sent0)"
    and "net (get_request (blockedUrl opts) (stat_headers sid)) = Response True (Some b)"
    and "net (get_request (allowedUrl opts) (stat_headers sid)) = Response True (Some a)"
  shows "(b = JNull \<or> a = JNull \<longrightarrow>
            fst (PiHoleTopQueries_fetchData net opts d)
              = Some (Error ''Expected data was not returned from Pi-Hole'')
            \<and> top_ads (fst (snd (PiHoleTopQueries_fetchData net opts d))) = JObj []
            \<and> top_queries (fst (snd (PiHoleTopQueries_fetchData net opts d))) = JObj [])
       \<and> (b \<noteq> JNull \<and> a \<noteq> JNull \<and> \<not> truthy_opt (js_prop b ''top_sources'') \<longrightarrow>
            fst (PiHoleTopQueries_fetchData net opts d) = None
            \<and> top_ads (fst (snd (PiHoleTopQueries_fetchData net opts d)))
                = (case b of JObj kvs \<Rightarrow> b | _ \<Rightarrow> JObj [])
            \<and> top_queries (fst (snd (PiHoleTopQueries_fetchData net opts d)))
                = (case a of JObj kvs \<Rightarrow> a | _ \<Rightarrow> JObj []))"
  unfolding PiHoleTopQueries_fetchData_def PiHoleTopQueries_try_fetched [OF assms]
  by (cases b; cases a) (simp_all add: store_rankings_def step_throw_def step_return_def)

text \<open>
  The instance with an array for the blocked category and an object for the allowed one:
  the cycle succeeds, the blocked mapping is empty and the allowed mapping is the object.
\<close>

theorem top_domains_shape_witness:
  "fst (PiHoleTopQueries_fetchData
          (appliance (session_reply (JStr ''abc'') True [])
             (top_routes (JArr [JStr ''ads.example'']) (JObj [(''example.org'', JNum 7)])))
          pihole_local \<lparr>top_ads = JNull, top_queries = JNull\<rparr>) = None
   \<and> top_ads (fst (snd (PiHoleTopQueries_fetchData
          (appliance (session_reply (JStr ''abc'') True [])
             (top_routes (JArr [JStr ''ads.example'']) (JObj [(''example.org'', JNum 7)])))
          pihole_local \<lparr>top_ads = JNull, top_queries = JNull\<rparr>))) = JObj []
   \<and> top_queries (fst (snd (PiHoleTopQueries_fetchData
          (appliance (session_reply (JStr ''abc'') True [])
             (top_routes (JArr [JStr ''ads.example'']) (JObj [(''example.org'', JNum 7)])))
          pihole_local \<lparr>top_ads = JNull, top_queries = JNull\<rparr>)))
       = JObj [(''example.org'', JNum 7)]"
  using top_domains_shape
      [OF authenticate_appliance
          appliance_blocked [of _ "JArr [JStr ''ads.example'']" "JObj [(''example.org'', JNum 7)]"]
          appliance_allowed,
       of "\<lparr>top_ads = JNull, top_queries = JNull\<rparr>"]
  by simp

text \<open>
  Against the claim as it was stated: a \<^verbatim>\<open>null\<close> payload for the blocked category is
  not replaced by an empty mapping in silence; the cycle fails.
\<close>

theorem top_domains_null_counterexample:
  "fst (PiHoleTopQueries_fetchData
          (appliance (session_reply (JStr ''abc'') True []) (top_routes JNull (JObj [])))
          pihole_local \<lparr>top_ads = JObj [], top_queries = JObj []\<rparr>)
     = Some (Error ''Expected data was not returned from Pi-Hole'')"
  by (simp add: PiHoleTopQueries_fetchData_def
        PiHoleTopQueries_try_fetched [OF authenticate_appliance appliance_blocked appliance_allowed]
        store_rankings_def step_throw_def)

section \<open>Top domains: a payload with top_sources\<close>

text \<open>
  Claim C10. Whenever the appliance answers the blocked ranking with an object whose
  \<open>top_sources\<close> field is truthy, the cycle of the top-domains widget ends in an error
  and both mappings are empty: the object is not used as the blocked mapping, although it
  is a non-null object that is no array. When the login and the allowed ranking went
  through, the error is the "Expected data" error of the guard.
\<close>

theorem top_sources_rejected:
  assumes "\<forall>hs. net (get_request (blockedUrl opts) hs) = Response True (Some (JObj kvs))"
    and "truthy_opt (map_of kvs ''top_sources'')"
  shows "fst (PiHoleTopQueries_fetchData net opts d) \<noteq> None
       \<and> top_ads (fst (snd (PiHoleTopQueries_fetchData net opts d))) = JObj []
       \<and> top_queries (fst (snd (PiHoleTopQueries_fetchData net opts d))) = JObj []
       \<and> (\<forall>sid sent0 a.
             authenticate ''Authentication failed: no session ID'' net (baseUrl opts) (password opts)
               = (Inr sid, sent0)
             \<and> net (get_request (allowedUrl opts) (stat_headers sid)) = Response True (Some a)
             \<longrightarrow> fst (PiHoleTopQueries_fetchData net opts d)
                   = Some (Error ''Expected data was not returned from Pi-Hole''))"
proof -
  have guard: "fst (store_rankings (JObj kvs) a d) = Inl (Error ''Expected data was not returned from Pi-Hole'')" for a
    using assms(2) by (simp add: store_rankings_def step_throw_def)
  have blocked: "fetch_json net msg (blockedUrl opts) hs = (Inr (JObj kvs), [get_request (blockedUrl opts) hs])" for msg hs
    using assms(1) by (simp add: fetch_json_ok)
  have "\<exists>e. fst (PiHoleTopQueries_try net opts d) = Inl e"
  proof (cases "authenticate ''Authentication failed: no session ID'' net (baseUrl opts) (password opts)" rule: step_cases)
    case (1 e sent)
    then show ?thesis by (simp add: PiHoleTopQueries_try_def)
  next
    case (2 sid sent)
    show ?thesis
      by (cases rule: fetch_json_cases [of net "''Failed to fetch top allowed domains''" "allowedUrl opts" "stat_headers sid"])
         (simp_all add: PiHoleTopQueries_try_def 2 blocked guard)
  qed
  then have fail: "fst (PiHoleTopQueries_fetchData net opts d) \<noteq> None
       \<and> top_ads (fst (snd (PiHoleTopQueries_fetchData net opts d))) = JObj []
       \<and> top_queries (fst (snd (PiHoleTopQueries_fetchData net opts d))) = JObj []"
    by (cases "PiHoleTopQueries_try net opts d") (auto simp: PiHoleTopQueries_fetchData_def)
  have "fst (PiHoleTopQueries_fetchData net opts d)
                   = Some (Error ''Expected data was not returned from Pi-Hole'')"
    if "authenticate ''Authentication failed: no session ID'' net (baseUrl opts) (password opts)
               = (Inr sid, sent0)"
      and "net (get_request (allowedUrl opts) (stat_headers sid)) = Response True (Some a)"
    for sid sent0 a
    using that assms(1)
    by (simp add: PiHoleTopQueries_fetchData_def PiHoleTopQueries_try_fetched [where b = "JObj kvs" and a = a] guard)
  with fail show ?thesis by blast
qed

text \<open>
  The instance \<^verbatim>\<open>{top_sources: []}\<close> for the blocked ranking, with an empty object for
  the allowed one.
\<close>

theorem top_sources_rejected_witness:
  "truthy_opt (map_of [(''top_sources'', JArr [])] ''top_sources'')
   \<and> fst (PiHoleTopQueries_fetchData
          (appliance (session_reply (JStr ''abc'') True [])
             (top_routes (JObj [(''top_sources'', JArr [])]) (JObj [])))
          pihole_local \<lparr>top_ads = JNull, top_queries = JNull\<rparr>)
       = Some (Error ''Expected data was not returned from Pi-Hole'')
   \<and> top_ads (fst (snd (PiHoleTopQueries_fetchData
          (appliance (session_reply (JStr ''abc'') True [])
             (top_routes (JObj [(''top_sources'', JArr [])]) (JObj [])))
          pihole_local \<lparr>top_ads = JNull, top_queries = JNull\<rparr>))) = JObj []
   \<and> top_queries (fst (snd (PiHoleTopQueries_fetchData
          (appliance (session_reply (JStr ''abc'') True [])
             (top_routes (JObj [(''top_sources'', JArr [])]) (JObj [])))
          pihole_local \<lparr>top_ads = JNull, top_queries = JNull\<rparr>))) = JObj []"
proof -
  have h1: "\<forall>hs. appliance (session_reply (JStr ''abc'') True [])
             (top_routes (JObj [(''top_sources'', JArr [])]) (JObj []))
             (get_request (blockedUrl pihole_local) hs) = Response True (Some (JObj [(''top_sources'', JArr [])]))"
    by (simp add: appliance_blocked)
  have h2: "truthy_opt (map_of [(''top_sources'', JArr [])] ''top_sources'')" by simp
  from top_sources_rejected [OF h1 h2, of "\<lparr>top_ads = JNull, top_queries = JNull\<rparr>"]
    authenticate_appliance appliance_allowed h2
  show ?thesis by blast
qed

section \<open>Failure resets the data\<close>

text \<open>
  Claim C3. In each of the three widgets, a cycle that ends in an error ends with the
  widget's data in its empty form: two empty mappings for the top domains, the empty object
  for status and summary, empty labels and empty series for the traffic history. The error
  raised is the one the \<^verbatim>\<open>try\<close> block ended with, and every error of the
  \<^verbatim>\<open>try\<close> block is raised again, whatever the stage it comes from. The data
  before the cycle (\<open>d1\<close>, \<open>d2\<close>, \<open>d3\<close>) does not survive a failure.
\<close>

theorem failure_resets_data:
  "(\<forall>e. fst (PiHoleTopQueries_fetchData net opts d1) = Some e \<longrightarrow>
       fst (PiHoleTopQueries_try net opts d1) = Inl e
       \<and> top_ads (fst (snd (PiHoleTopQueries_fetchData net opts d1))) = JObj []
       \<and> top_queries (fst (snd (PiHoleTopQueries_fetchData net opts d1))) = JObj [])
   \<and> (\<forall>e. fst (PiHoleStats_fetchData net toFixed1 chart1 opts d2) = Some e \<longrightarrow>
       fst (PiHoleStats_try net toFixed1 chart1 opts d2) = Inl e
       \<and> fst (snd (PiHoleStats_fetchData net toFixed1 chart1 opts d2)) = JObj [])
   \<and> (\<forall>e. fst (PiHoleTraffic_fetchData net env chart2 opts d3) = Some e \<longrightarrow>
       fst (PiHoleTraffic_try net env chart2 opts d3) = Inl e
       \<and> labels (fst (snd (PiHoleTraffic_fetchData net env chart2 opts d3))) = []
       \<and> queriesData (fst (snd (PiHoleTraffic_fetchData net env chart2 opts d3))) = JArr []
       \<and> blockedData (fst (snd (PiHoleTraffic_fetchData net env chart2 opts d3))) = JArr [])
   \<and> (\<forall>e. fst (PiHoleTopQueries_try net opts d1) = Inl e \<longrightarrow>
         fst (PiHoleTopQueries_fetchData net opts d1) = Some e)
   \<and> (\<forall>e. fst (PiHoleStats_try net toFixed1 chart1 opts d2) = Inl e \<longrightarrow>
         fst (PiHoleStats_fetchData net toFixed1 chart1 opts d2) = Some e)
   \<and> (\<forall>e. fst (PiHoleTraffic_try net env chart2 opts d3) = Inl e \<longrightarrow>
         fst (PiHoleTraffic_fetchData net env chart2 opts d3) = Some e)"
proof -
  show ?thesis
    by (cases "PiHoleTopQueries_try net opts d1" rule: step_cases;
        cases "PiHoleStats_try net toFixed1 chart1 opts d2" rule: step_cases;
        cases "PiHoleTraffic_try net env chart2 opts d3" rule: step_cases)
       (simp_all add: PiHoleTopQueries_fetchData_def PiHoleStats_fetchData_def
          PiHoleTraffic_fetchData_def)
qed

text \<open>
  Three failed cycles, each starting from data of an earlier cycle: a \<^verbatim>\<open>null\<close>
  ranking stopped by the guard, an appliance that cannot be reached, and a chart that throws
  after the series were stored.
\<close>

theorem failure_resets_data_witness:
  "fst (PiHoleTopQueries_fetchData
          (appliance (session_reply (JStr ''abc'') True []) (top_routes (JObj []) JNull))
          pihole_local
          \<lparr>top_ads = JObj [(''ads.example'', JNum 9)],
           top_queries = JObj [(''example.org'', JNum 7)]\<rparr>)
     = Some (Error ''Expected data was not returned from Pi-Hole'')
   \<and> top_ads (fst (snd (PiHoleTopQueries_fetchData
          (appliance (session_reply (JStr ''abc'') True []) (top_routes (JObj []) JNull))
          pihole_local
          \<lparr>top_ads = JObj [(''ads.example'', JNum 9)],
           top_queries = JObj [(''example.org'', JNum 7)]\<rparr>))) = JObj []
   \<and> top_queries (fst (snd (PiHoleTopQueries_fetchData
          (appliance (session_reply (JStr ''abc'') True []) (top_routes (JObj []) JNull))
          pihole_local
          \<lparr>top_ads = JObj [(''ads.example'', JNum 9)],
           top_queries = JObj [(''example.org'', JNum 7)]\<rparr>))) = JObj []
   \<and> fst (PiHoleStats_fetchData unreachable one_decimal chart_ready pihole_local full_summary)
     = Some FetchRejected
   \<and> fst (snd (PiHoleStats_fetchData unreachable one_decimal chart_ready pihole_local
              full_summary)) = JObj []
   \<and> fst (PiHoleTraffic_fetchData
          (appliance (session_reply (JStr ''abc'') True [])
             (history_routes (history_of [JNum 3, JNum 4] [JNum 1])))
          (utc_clock 0) chart_missing pihole_local
          \<lparr>labels = [''12:00 AM''], queriesData = JArr [JNum 3], blockedData = JArr [JNum 1]\<rparr>)
     = Some ChartError
   \<and> labels (fst (snd (PiHoleTraffic_fetchData
          (appliance (session_reply (JStr ''abc'') True [])
             (history_routes (history_of [JNum 3, JNum 4] [JNum 1])))
          (utc_clock 0) chart_missing pihole_local
          \<lparr>labels = [''12:00 AM''], queriesData = JArr [JNum 3], blockedData = JArr [JNum 1]\<rparr>)))
     = []
   \<and> queriesData (fst (snd (PiHoleTraffic_fetchData
          (appliance (session_reply (JStr ''abc'') True [])
             (history_routes (history_of [JNum 3, JNum 4] [JNum 1])))
          (utc_clock 0) chart_missing pihole_local
          \<lparr>labels = [''12:00 AM''], queriesData = JArr [JNum 3], blockedData = JArr [JNum 1]\<rparr>)))
     = JArr []
   \<and> blockedData (fst (snd (PiHoleTraffic_fetchData
          (appliance (session_reply (JStr ''abc'') True [])
             (history_routes (history_of [JNum 3, JNum 4] [JNum 1])))
          (utc_clock 0) chart_missing pihole_local
          \<lparr>labels = [''12:00 AM''], queriesData = JArr [JNum 3], blockedData = JArr [JNum 1]\<rparr>)))
     = JArr []"
proof -
  have f1: "fst (PiHoleTopQueries_fetchData
          (appliance (session_reply (JStr ''abc'') True []) (top_routes (JObj []) JNull))
          pihole_local d1) = Some (Error ''Expected data was not returned from Pi-Hole'')" for d1
    by (simp add: PiHoleTopQueries_fetchData_def
          PiHoleTopQueries_try_fetched [OF authenticate_appliance appliance_blocked appliance_allowed]
          store_rankings_def step_throw_def)
  have auth: "authenticate msg unreachable (baseUrl pihole_local) (password pihole_local)
      = (Inl FetchRejected, [auth_request ''http://pihole.local'' ''s3cr3t''])" for msg
    by (simp add: authenticate_def fetch_def unreachable_def baseUrl_pihole_local
          password_pihole_local)
  have f2: "fst (PiHoleStats_fetchData unreachable one_decimal chart_ready pihole_local d2)
      = Some FetchRejected" for d2
    by (simp add: PiHoleStats_fetchData_def PiHoleStats_try_def auth)
  have f3: "fst (PiHoleTraffic_fetchData
          (appliance (session_reply (JStr ''abc'') True [])
             (history_routes (history_of [JNum 3, JNum 4] [JNum 1])))
          (utc_clock 0) chart_missing pihole_local d3) = Some ChartError" for d3
    by (simp add: PiHoleTraffic_fetched [OF authenticate_appliance appliance_history
          history_of_props] chart_missing_def Let_def)
  note r = failure_resets_data [of _ pihole_local _ one_decimal chart_ready full_summary
      "utc_clock 0" chart_missing]
  have t1: "top_ads (fst (snd (PiHoleTopQueries_fetchData
          (appliance (session_reply (JStr ''abc'') True []) (top_routes (JObj []) JNull))
          pihole_local
          \<lparr>top_ads = JObj [(''ads.example'', JNum 9)],
           top_queries = JObj [(''example.org'', JNum 7)]\<rparr>))) = JObj []
      \<and> top_queries (fst (snd (PiHoleTopQueries_fetchData
          (appliance (session_reply (JStr ''abc'') True []) (top_routes (JObj []) JNull))
          pihole_local
          \<lparr>top_ads = JObj [(''ads.example'', JNum 9)],
           top_queries = JObj [(''example.org'', JNum 7)]\<rparr>))) = JObj []"
    using r [of "appliance (session_reply (JStr ''abc'') True []) (top_routes (JObj []) JNull)"
        "\<lparr>top_ads = JObj [(''ads.example'', JNum 9)],
          top_queries = JObj [(''example.org'', JNum 7)]\<rparr>"
        "\<lparr>labels = [], queriesData = JNull, blockedData = JNull\<rparr>"] f1
    by blast
  have t2: "fst (snd (PiHoleStats_fetchData unreachable one_decimal chart_ready pihole_local
              full_summary)) = JObj []"
    using r [of unreachable "\<lparr>top_ads = JNull, top_queries = JNull\<rparr>"
        "\<lparr>labels = [], queriesData = JNull, blockedData = JNull\<rparr>"] f2
    by blast
  have t3: "labels (fst (snd (PiHoleTraffic_fetchData
          (appliance (session_reply (JStr ''abc'') True [])
             (history_routes (history_of [JNum 3, JNum 4] [JNum 1])))
          (utc_clock 0) chart_missing pihole_local
          \<lparr>labels = [''12:00 AM''], queriesData = JArr [JNum 3], blockedData = JArr [JNum 1]\<rparr>)))
     = []
   \<and> queriesData (fst (snd (PiHoleTraffic_fetchData
          (appliance (session_reply (JStr ''abc'') True [])
             (history_routes (history_of [JNum 3, JNum 4] [JNum 1])))
          (utc_clock 0) chart_missing pihole_local
          \<lparr>labels = [''12:00 AM''], queriesData = JArr [JNum 3], blockedData = JArr [JNum 1]\<rparr>)))
     = JArr []
   \<and> blockedData (fst (snd (PiHoleTraffic_fetchData
          (appliance (session_reply (JStr ''abc'') True [])
             (history_routes (history_of [JNum 3, JNum 4] [JNum 1])))
          (utc_clock 0) chart_missing pihole_local
          \<lparr>labels = [''12:00 AM''], queriesData = JArr [JNum 3], blockedData = JArr [JNum 1]\<rparr>)))
     = JArr []"
    using r [of "appliance (session_reply (JStr ''abc'') True [])
             (history_routes (history_of [JNum 3, JNum 4] [JNum 1]))"
        "\<lparr>top_ads = JNull, top_queries = JNull\<rparr>"
        "\<lparr>labels = [''12:00 AM''], queriesData = JArr [JNum 3], blockedData = JArr [JNum 1]\<rparr>"] f3
    by blast
  from f1 f2 f3 t1 t2 t3 show ?thesis by blast
qed

section \<open>Traffic history: timestamps, truncation, labels\<close>

text \<open>
  Claim C4. The history was fetched with the arrays \<open>xs\<close> and \<open>ys\<close> and the chart
  accepts the data. Then the labels emitted are the labels of a sequence \<open>ts\<close> of
  timestamps, one per point, as many as the shorter array has elements. If that number is
  144, the first timestamp is the first clock reading minus 24 hours; for any other number
  (other than none at all) it is the start of the local day of the second clock reading.
  Each further timestamp is the previous one plus 600000 milliseconds.
\<close>

theorem reconstruct_timestamps:
  assumes "authenticate ''Authentication failed: no session ID'' net (baseUrl opts) (password opts)
             = (Inr sid, sent0)"
    and "net (get_request (historyUrl opts) (stat_headers sid)) = Response True (Some historyData)"
    and "js_prop historyData ''domains_over_time'' = Some (JArr xs)"
    and "js_prop historyData ''ads_over_time'' = Some (JArr ys)"
    and "\<forall>d'. updateChart d' = None"
  shows "\<exists>ts. fst (PiHoleTraffic_fetchData net env updateChart opts d) = None
       \<and> labels (fst (snd (PiHoleTraffic_fetchData net env updateChart opts d)))
           = map (time_label env) ts
       \<and> length ts = min (length xs) (length ys)
       \<and> (min (length xs) (length ys) = 144 \<longrightarrow> ts ! 0 = now env - 24 * 60 * 60 * 1000)
       \<and> (min (length xs) (length ys) \<noteq> 144 \<and> min (length xs) (length ys) \<noteq> 0
            \<longrightarrow> ts ! 0 = setHours0 env (now_again env))
       \<and> (\<forall>i. Suc i < min (length xs) (length ys) \<longrightarrow> ts ! Suc i = ts ! i + 600000)"
proof -
  let ?n = "min (length xs) (length ys)"
  let ?ts = "map (\<lambda>i. start_time env ?n + int i * 600000) [0..<?n]"
  have "fst (PiHoleTraffic_fetchData net env updateChart opts d) = None"
    and "labels (fst (snd (PiHoleTraffic_fetchData net env updateChart opts d)))
           = map (time_label env) ?ts"
    using assms(5) by (simp_all add: PiHoleTraffic_fetched [OF assms(1-4)] Let_def comp_def)
  moreover have "length ?ts = ?n" by simp
  moreover have "?n = 144 \<longrightarrow> ?ts ! 0 = now env - 24 * 60 * 60 * 1000"
    by (simp add: start_time_def)
  moreover have "?n \<noteq> 144 \<and> ?n \<noteq> 0 \<longrightarrow> ?ts ! 0 = setHours0 env (now_again env)"
    by (simp add: start_time_def)
  moreover have "\<forall>i. Suc i < ?n \<longrightarrow> ?ts ! Suc i = ?ts ! i + 600000"
    by simp
  ultimately show ?thesis by blast
qed

text \<open>
  Two series of 144 samples: the cycle succeeds and emits 144 labels.
\<close>

theorem reconstruct_timestamps_witness:
  "fst (PiHoleTraffic_fetchData
          (appliance (session_reply (JStr ''abc'') True [])
             (history_routes (history_of (replicate 144 (JNum 3)) (replicate 144 (JNum 1)))))
          (utc_clock 1700000000000) chart_ready pihole_local
          \<lparr>labels = [], queriesData = JArr [], blockedData = JArr []\<rparr>) = None
   \<and> length (labels (fst (snd (PiHoleTraffic_fetchData
          (appliance (session_reply (JStr ''abc'') True [])
             (history_routes (history_of (replicate 144 (JNum 3)) (replicate 144 (JNum 1)))))
          (utc_clock 1700000000000) chart_ready pihole_local
          \<lparr>labels = [], queriesData = JArr [], blockedData = JArr []\<rparr>)))) = 144"
proof -
  from reconstruct_timestamps [OF authenticate_appliance appliance_history history_of_props
      chart_ready_always,
      of "replicate 144 (JNum 3)" "replicate 144 (JNum 1)" "utc_clock 1700000000000"
         "\<lparr>labels = [], queriesData = JArr [], blockedData = JArr []\<rparr>"]
  obtain ts where "fst (PiHoleTraffic_fetchData
          (appliance (session_reply (JStr ''abc'') True [])
             (history_routes (history_of (replicate 144 (JNum 3)) (replicate 144 (JNum 1)))))
          (utc_clock 1700000000000) chart_ready pihole_local
          \<lparr>labels = [], queriesData = JArr [], blockedData = JArr []\<rparr>) = None"
    and "labels (fst (snd (PiHoleTraffic_fetchData
          (appliance (session_reply (JStr ''abc'') True [])
             (history_routes (history_of (replicate 144 (JNum 3)) (replicate 144 (JNum 1)))))
          (utc_clock 1700000000000) chart_ready pihole_local
          \<lparr>labels = [], queriesData = JArr [], blockedData = JArr []\<rparr>)))
        = map (time_label (utc_clock 1700000000000)) ts"
    and "length ts = min (length (replicate 144 (JNum 3))) (length (replicate 144 (JNum 1)))"
    by blast
  then show ?thesis by simp
qed

text \<open>
  Claim C5. Under the same conditions, both series emitted have the length of the shorter
  input array, no error is raised for the samples dropped, and the sample at each index is
  the input sample at that index.
\<close>

theorem reconstruct_truncates:
  assumes "authenticate ''Authentication failed: no session ID'' net (baseUrl opts) (password opts)
             = (Inr sid, sent0)"
    and "net (get_request (historyUrl opts) (stat_headers sid)) = Response True (Some historyData)"
    and "js_prop historyData ''domains_over_time'' = Some (JArr xs)"
    and "js_prop historyData ''ads_over_time'' = Some (JArr ys)"
    and "\<forall>d'. updateChart d' = None"
  shows "\<exists>qs bs. fst (PiHoleTraffic_fetchData net env updateChart opts d) = None
       \<and> queriesData (fst (snd (PiHoleTraffic_fetchData net env updateChart opts d))) = JArr qs
       \<and> blockedData (fst (snd (PiHoleTraffic_fetchData net env updateChart opts d))) = JArr bs
       \<and> length qs = min (length xs) (length ys)
       \<and> length bs = min (length xs) (length ys)
       \<and> (\<forall>i < min (length xs) (length ys). qs ! i = xs ! i \<and> bs ! i = ys ! i)"
proof -
  let ?n = "min (length xs) (length ys)"
  have "fst (PiHoleTraffic_fetchData net env updateChart opts d) = None"
    and "queriesData (fst (snd (PiHoleTraffic_fetchData net env updateChart opts d)))
           = JArr (take ?n xs)"
    and "blockedData (fst (snd (PiHoleTraffic_fetchData net env updateChart opts d)))
           = JArr (take ?n ys)"
    using assms(5) by (simp_all add: PiHoleTraffic_fetched [OF assms(1-4)] Let_def)
  moreover have "length (take ?n xs) = ?n" and "length (take ?n ys) = ?n" by simp_all
  moreover have "\<forall>i < ?n. take ?n xs ! i = xs ! i \<and> take ?n ys ! i = ys ! i" by simp
  ultimately show ?thesis by blast
qed

text \<open>
  A series of 50 samples against one of 80: both emitted series have 50.
\<close>

theorem reconstruct_truncates_witness:
  "fst (PiHoleTraffic_fetchData
          (appliance (session_reply (JStr ''abc'') True [])
             (history_routes (history_of (replicate 50 (JNum 3)) (replicate 80 (JNum 1)))))
          (utc_clock 1700000000000) chart_ready pihole_local
          \<lparr>labels = [], queriesData = JArr [], blockedData = JArr []\<rparr>) = None
   \<and> series_length (queriesData (fst (snd (PiHoleTraffic_fetchData
          (appliance (session_reply (JStr ''abc'') True [])
             (history_routes (history_of (replicate 50 (JNum 3)) (replicate 80 (JNum 1)))))
          (utc_clock 1700000000000) chart_ready pihole_local
          \<lparr>labels = [], queriesData = JArr [], blockedData = JArr []\<rparr>)))) = Some 50
   \<and> series_length (blockedData (fst (snd (PiHoleTraffic_fetchData
          (appliance (session_reply (JStr ''abc'') True [])
             (history_routes (history_of (replicate 50 (JNum 3)) (replicate 80 (JNum 1)))))
          (utc_clock 1700000000000) chart_ready pihole_local
          \<lparr>labels = [], queriesData = JArr [], blockedData = JArr []\<rparr>)))) = Some 50"
proof -
  from reconstruct_truncates [OF authenticate_appliance appliance_history history_of_props
      chart_ready_always,
      of "replicate 50 (JNum 3)" "replicate 80 (JNum 1)" "utc_clock 1700000000000"
         "\<lparr>labels = [], queriesData = JArr [], blockedData = JArr []\<rparr>"]
  obtain qs bs where "fst (PiHoleTraffic_fetchData
          (appliance (session_reply (JStr ''abc'') True [])
             (history_routes (history_of (replicate 50 (JNum 3)) (replicate 80 (JNum 1)))))
          (utc_clock 1700000000000) chart_ready pihole_local
          \<lparr>labels = [], queriesData = JArr [], blockedData = JArr []\<rparr>) = None"
    and "queriesData (fst (snd (PiHoleTraffic_fetchData
          (appliance (session_reply (JStr ''abc'') True [])
             (history_routes (history_of (replicate 50 (JNum 3)) (replicate 80 (JNum 1)))))
          (utc_clock 1700000000000) chart_ready pihole_local
          \<lparr>labels = [], queriesData = JArr [], blockedData = JArr []\<rparr>))) = JArr qs"
    and "blockedData (fst (snd (PiHoleTraffic_fetchData
          (appliance (session_reply (JStr ''abc'') True [])
             (history_routes (history_of (replicate 50 (JNum 3)) (replicate 80 (JNum 1)))))
          (utc_clock 1700000000000) chart_ready pihole_local
          \<lparr>labels = [], queriesData = JArr [], blockedData = JArr []\<rparr>))) = JArr bs"
    and "length qs = min (length (replicate 50 (JNum 3))) (length (replicate 80 (JNum 1)))"
    and "length bs = min (length (replicate 50 (JNum 3))) (length (replicate 80 (JNum 1)))"
    by blast
  then show ?thesis by simp
qed

text \<open>
  Claim C8. For a time whose local hour is below 24 and whose local minute is below 60, the
  label is the hour on the 12-hour clock (between 1 and 12, congruent to the hour modulo
  12, so 0 and 12 both give 12), a colon, the minute in two digits, a space, and AM before
  noon, PM from noon on. The four times of the specification give the four labels. The
  \<open>i\<close>-th label the loop pushes is the label of the start time plus \<open>i\<close> times ten
  minutes.
\<close>

theorem time_label_format:
  assumes "getHours env t < 24" and "getMinutes env t < 60"
  shows "(\<exists>hh. time_label env t
            = show_nat hh @ '':''
              @ [digit_char (getMinutes env t div 10), digit_char (getMinutes env t mod 10)]
              @ '' '' @ (if getHours env t < 12 then ''AM'' else ''PM'')
            \<and> 1 \<le> hh \<and> hh \<le> 12 \<and> hh mod 12 = getHours env t mod 12)
       \<and> (getHours env t = 0 \<and> getMinutes env t = 0 \<longrightarrow> time_label env t = ''12:00 AM'')
       \<and> (getHours env t = 12 \<and> getMinutes env t = 0 \<longrightarrow> time_label env t = ''12:00 PM'')
       \<and> (getHours env t = 13 \<and> getMinutes env t = 5 \<longrightarrow> time_label env t = ''1:05 PM'')
       \<and> (getHours env t = 17 \<and> getMinutes env t = 55 \<longrightarrow> time_label env t = ''5:55 PM'')
       \<and> (\<forall>i < n. label_loop env t n 0 [] ! i = time_label env (t + int i * 600000))"
proof -
  let ?h = "getHours env t" and ?m = "getMinutes env t"
  let ?hh = "if ?h mod 12 = 0 then 12 else ?h mod 12"
  have mm: "(if ?m < 10 then ''0'' @ show_nat ?m else show_nat ?m)
      = [digit_char (?m div 10), digit_char (?m mod 10)]"
    using assms(2) by (auto simp: show_nat_digit show_nat_two digit_char_def)
  have "time_label env t = show_nat ?hh @ '':''
              @ [digit_char (?m div 10), digit_char (?m mod 10)]
              @ '' '' @ (if ?h < 12 then ''AM'' else ''PM'')"
    unfolding time_label_def Let_def mm by auto
  moreover have "1 \<le> ?hh \<and> ?hh \<le> 12 \<and> ?hh mod 12 = ?h mod 12"
    by (auto simp: less_imp_le)
  ultimately have general: "\<exists>hh. time_label env t
            = show_nat hh @ '':''
              @ [digit_char (?m div 10), digit_char (?m mod 10)]
              @ '' '' @ (if ?h < 12 then ''AM'' else ''PM'')
            \<and> 1 \<le> hh \<and> hh \<le> 12 \<and> hh mod 12 = ?h mod 12"
    by blast
  have ex1: "?h = 0 \<and> ?m = 0 \<longrightarrow> time_label env t = ''12:00 AM''"
    by (simp add: time_label_def show_nat_digit show_nat_two digit_char_def)
  have ex2: "?h = 12 \<and> ?m = 0 \<longrightarrow> time_label env t = ''12:00 PM''"
    by (simp add: time_label_def show_nat_digit show_nat_two digit_char_def)
  have ex3: "?h = 13 \<and> ?m = 5 \<longrightarrow> time_label env t = ''1:05 PM''"
    by (simp add: time_label_def show_nat_digit show_nat_two digit_char_def)
  have ex4: "?h = 17 \<and> ?m = 55 \<longrightarrow> time_label env t = ''5:55 PM''"
    by (simp add: time_label_def show_nat_digit show_nat_two digit_char_def)
  have loop: "\<forall>i < n. label_loop env t n 0 [] ! i = time_label env (t + int i * 600000)"
    by (simp add: label_loop_map)
  from general ex1 ex2 ex3 ex4 loop show ?thesis by blast
qed

text \<open>
  In UTC, 64500000 milliseconds after the epoch is 17:55.
\<close>

theorem time_label_format_witness:
  "getHours (utc_clock 0) 64500000 < 24 \<and> getMinutes (utc_clock 0) 64500000 < 60
   \<and> time_label (utc_clock 0) 64500000 = ''5:55 PM''"
proof -
  have h: "getHours (utc_clock 0) 64500000 = 17" and m: "getMinutes (utc_clock 0) 64500000 = 55"
    by (simp_all add: utc_clock_def)
  have h1: "getHours (utc_clock 0) 64500000 < 24" and h2: "getMinutes (utc_clock 0) 64500000 < 60"
    by (simp_all add: h m)
  from time_label_format [OF h1 h2] h m h1 h2 show ?thesis by blast
qed

section \<open>Summary and status\<close>

text \<open>
  Claim C6, as amended. Whenever the appliance answers the summary request with a payload
  in which one of the four fields is undefined, the cycle of the status widget ends in an
  error with the empty object as data. The status is fetched before the summary is
  checked: the error is the "Expected data" error of the check when the login and the
  status request went through and the payload is not \<^verbatim>\<open>null\<close>. That error comes from
  the check exactly when a field is undefined: a field that is present, with whatever value
  (zero, the empty string, \<^verbatim>\<open>null\<close>), passes.
\<close>

theorem summary_validation:
  assumes "\<forall>hs. net (get_request (summaryUrl opts) hs) = Response True (Some summaryJson)"
    and "\<exists>k \<in> set [''domains_being_blocked'', ''dns_queries_today'', ''ads_blocked_today'',
                     ''ads_percentage_today'']. js_prop summaryJson k = None"
  shows "fst (PiHoleStats_fetchData net toFixed1 updateChart opts d) \<noteq> None
       \<and> fst (snd (PiHoleStats_fetchData net toFixed1 updateChart opts d)) = JObj []
       \<and> (\<forall>sid sent0 statusJson.
             authenticate ''Authentication failed: no session ID returned'' net (baseUrl opts)
               (password opts) = (Inr sid, sent0)
             \<and> net (get_request (statusUrl opts) (stat_headers sid)) = Response True (Some statusJson)
             \<and> summaryJson \<noteq> JNull
             \<longrightarrow> fst (PiHoleStats_fetchData net toFixed1 updateChart opts d)
                   = Some (Error ''Expected data was not returned from Pi-Hole''))
       \<and> (\<forall>summary' status'.
             fst (merge_status toFixed1 summary' status')
               = Inl (Error ''Expected data was not returned from Pi-Hole'')
             \<longleftrightarrow> summary' \<noteq> JNull
                 \<and> (\<exists>k \<in> set [''domains_being_blocked'', ''dns_queries_today'',
                                ''ads_blocked_today'', ''ads_percentage_today''].
                       js_prop summary' k = None))"
proof -
  have summary: "fetch_json net msg (summaryUrl opts) hs
      = (Inr summaryJson, [get_request (summaryUrl opts) hs])" for msg hs
    using assms(1) by (simp add: fetch_json_ok)
  have merge: "\<exists>e. fst (merge_status toFixed1 summaryJson statusJson) = Inl e" for statusJson
    by (simp add: merge_status_missing [OF assms(2)])
  have "\<exists>e. fst (PiHoleStats_try net toFixed1 updateChart opts d) = Inl e"
  proof (cases "authenticate ''Authentication failed: no session ID returned'' net (baseUrl opts)
                  (password opts)" rule: step_cases)
    case (1 e sent)
    then show ?thesis by (simp add: PiHoleStats_try_def)
  next
    case (2 sid sent)
    show ?thesis
    proof (cases rule: fetch_json_cases [of net "''Failed to fetch status''" "statusUrl opts"
             "stat_headers sid"])
      case (1 e)
      then show ?thesis by (simp add: PiHoleStats_try_def 2 summary)
    next
      case st: (2 statusJson)
      from merge [of statusJson] obtain e
        where "merge_status toFixed1 summaryJson statusJson = (Inl e, [])"
        by (metis merge_status_sent prod.collapse)
      then show ?thesis by (simp add: PiHoleStats_try_def 2 summary st)
    qed
  qed
  then have c1: "fst (PiHoleStats_fetchData net toFixed1 updateChart opts d) \<noteq> None"
    and c2: "fst (snd (PiHoleStats_fetchData net toFixed1 updateChart opts d)) = JObj []"
    by (cases "PiHoleStats_try net toFixed1 updateChart opts d" rule: step_cases;
        auto simp: PiHoleStats_fetchData_def)+
  have c3: "\<forall>sid sent0 statusJson.
             authenticate ''Authentication failed: no session ID returned'' net (baseUrl opts)
               (password opts) = (Inr sid, sent0)
             \<and> net (get_request (statusUrl opts) (stat_headers sid)) = Response True (Some statusJson)
             \<and> summaryJson \<noteq> JNull
             \<longrightarrow> fst (PiHoleStats_fetchData net toFixed1 updateChart opts d)
                   = Some (Error ''Expected data was not returned from Pi-Hole'')"
  proof (intro allI impI, elim conjE)
    fix sid sent0 statusJson
    assume auth: "authenticate ''Authentication failed: no session ID returned'' net (baseUrl opts)
               (password opts) = (Inr sid, sent0)"
      and st: "net (get_request (statusUrl opts) (stat_headers sid)) = Response True (Some statusJson)"
      and nn: "summaryJson \<noteq> JNull"
    have "fst (merge_status toFixed1 summaryJson statusJson)
            = Inl (Error ''Expected data was not returned from Pi-Hole'')"
      using merge_status_missing [OF assms(2), of toFixed1 statusJson] nn by simp
    then have "merge_status toFixed1 summaryJson statusJson
            = (Inl (Error ''Expected data was not returned from Pi-Hole''), [])"
      by (simp add: prod_eq_iff)
    then show "fst (PiHoleStats_fetchData net toFixed1 updateChart opts d)
                   = Some (Error ''Expected data was not returned from Pi-Hole'')"
      using assms(1)
      by (simp add: PiHoleStats_fetchData_def PiHoleStats_try_fetched [OF auth _ st])
  qed
  have c4: "\<forall>summary' status'.
             fst (merge_status toFixed1 summary' status')
               = Inl (Error ''Expected data was not returned from Pi-Hole'')
             \<longleftrightarrow> summary' \<noteq> JNull
                 \<and> (\<exists>k \<in> set [''domains_being_blocked'', ''dns_queries_today'',
                                ''ads_blocked_today'', ''ads_percentage_today''].
                       js_prop summary' k = None)"
    by (intro allI) (rule merge_status_error_iff)
  show ?thesis by (intro conjI c1 c2 c3 c4)
qed

text \<open>
  A summary without \<open>ads_percentage_today\<close>, the other three fields present, two of them
  zero.
\<close>

theorem summary_validation_witness:
  "js_prop summary_without_percentage ''ads_percentage_today'' = None
   \<and> fst (PiHoleStats_fetchData
          (appliance (session_reply (JStr ''abc'') True [])
             (stats_routes summary_without_percentage (JObj [(''blocking'', JBool True)])))
          one_decimal chart_ready pihole_local (JObj [(''status'', JStr ''enabled'')]))
       = Some (Error ''Expected data was not returned from Pi-Hole'')
   \<and> fst (snd (PiHoleStats_fetchData
          (appliance (session_reply (JStr ''abc'') True [])
             (stats_routes summary_without_percentage (JObj [(''blocking'', JBool True)])))
          one_decimal chart_ready pihole_local (JObj [(''status'', JStr ''enabled'')])))
       = JObj []"
proof -
  have h0: "js_prop summary_without_percentage ''ads_percentage_today'' = None"
    by (simp add: summary_without_percentage_def)
  have h1: "\<forall>hs. appliance (session_reply (JStr ''abc'') True [])
             (stats_routes summary_without_percentage (JObj [(''blocking'', JBool True)]))
             (get_request (summaryUrl pihole_local) hs)
           = Response True (Some summary_without_percentage)"
    by (simp add: appliance_summary)
  have h2: "\<exists>k \<in> set [''domains_being_blocked'', ''dns_queries_today'', ''ads_blocked_today'',
                     ''ads_percentage_today'']. js_prop summary_without_percentage k = None"
    using h0 by simp
  have h3: "summary_without_percentage \<noteq> JNull"
    by (simp add: summary_without_percentage_def)
  note sv = summary_validation [OF h1 h2, of one_decimal chart_ready
      "JObj [(''status'', JStr ''enabled'')]"]
  from sv have empty: "fst (snd (PiHoleStats_fetchData
          (appliance (session_reply (JStr ''abc'') True [])
             (stats_routes summary_without_percentage (JObj [(''blocking'', JBool True)])))
          one_decimal chart_ready pihole_local (JObj [(''status'', JStr ''enabled'')])))
       = JObj []"
    by (elim conjE)
  from sv have "\<forall>sid sent0 statusJson.
             authenticate ''Authentication failed: no session ID returned''
               (appliance (session_reply (JStr ''abc'') True [])
                  (stats_routes summary_without_percentage (JObj [(''blocking'', JBool True)])))
               (baseUrl pihole_local) (password pihole_local) = (Inr sid, sent0)
             \<and> appliance (session_reply (JStr ''abc'') True [])
                  (stats_routes summary_without_percentage (JObj [(''blocking'', JBool True)]))
                  (get_request (statusUrl pihole_local) (stat_headers sid))
                 = Response True (Some statusJson)
             \<and> summary_without_percentage \<noteq> JNull
             \<longrightarrow> fst (PiHoleStats_fetchData
          (appliance (session_reply (JStr ''abc'') True [])
             (stats_routes summary_without_percentage (JObj [(''blocking'', JBool True)])))
          one_decimal chart_ready pihole_local (JObj [(''status'', JStr ''enabled'')]))
                   = Some (Error ''Expected data was not returned from Pi-Hole'')"
    by (elim conjE)
  with authenticate_appliance appliance_status h3
  have "fst (PiHoleStats_fetchData
          (appliance (session_reply (JStr ''abc'') True [])
             (stats_routes summary_without_percentage (JObj [(''blocking'', JBool True)])))
          one_decimal chart_ready pihole_local (JObj [(''status'', JStr ''enabled'')]))
       = Some (Error ''Expected data was not returned from Pi-Hole'')"
    by blast
  with h0 empty show ?thesis by (intro conjI)
qed

text \<open>
  Against the claim as it was stated: the summary lacks \<open>ads_percentage_today\<close> and the
  appliance does not answer the status request with success. Line 247 throws before the
  check of line 250 is reached, so the error is the one of the status request, not the
  validation error.
\<close>

theorem summary_status_down_counterexample:
  "fst (PiHoleStats_fetchData
          (appliance (session_reply (JStr ''abc'') True [])
             [(''http://pihole.local/api/stats/summary'', summary_without_percentage)])
          one_decimal chart_ready pihole_local (JObj []))
     = Some (Error ''Failed to fetch status'')"
proof -
  have s: "fetch_json (appliance (session_reply (JStr ''abc'') True [])
             [(''http://pihole.local/api/stats/summary'', summary_without_percentage)])
           msg (summaryUrl pihole_local) hs
         = (Inr summary_without_percentage, [get_request (summaryUrl pihole_local) hs])" for msg hs
    by (rule fetch_json_ok)
       (simp add: appliance_def get_request_def summaryUrl_pihole_local)
  have t: "fetch_json (appliance (session_reply (JStr ''abc'') True [])
             [(''http://pihole.local/api/stats/summary'', summary_without_percentage)])
           ''Failed to fetch status'' (statusUrl pihole_local) hs
         = (Inl (Error ''Failed to fetch status''), [get_request (statusUrl pihole_local) hs])" for hs
    by (simp add: fetch_json_def fetch_def appliance_def get_request_def statusUrl_pihole_local
          step_throw_def)
  show ?thesis
    by (simp add: PiHoleStats_fetchData_def PiHoleStats_try_def authenticate_appliance s t)
qed

text \<open>
  Claim C7. The login, the summary (with its four fields) and the status request went
  through, the status payload is not \<^verbatim>\<open>null\<close> and its \<open>blocking\<close> field is a boolean
  or missing, and the chart is hidden or accepts the data. Then the cycle succeeds, and the
  emitted status is "disabled" exactly when \<open>blocking\<close> is present and \<^verbatim>\<open>false\<close>;
  otherwise it is "enabled", in particular when \<open>blocking\<close> is missing.
\<close>

theorem status_from_blocking:
  assumes "authenticate ''Authentication failed: no session ID returned'' net (baseUrl opts)
             (password opts) = (Inr sid, sent0)"
    and "net (get_request (summaryUrl opts) (stat_headers sid)) = Response True (Some summaryJson)"
    and "net (get_request (statusUrl opts) (stat_headers sid)) = Response True (Some statusJson)"
    and "\<forall>k \<in> set [''domains_being_blocked'', ''dns_queries_today'', ''ads_blocked_today'',
                     ''ads_percentage_today'']. js_prop summaryJson k \<noteq> None"
    and "statusJson \<noteq> JNull"
    and "hideChart opts \<or> (\<forall>d'. updateChart d' = None)"
    and "js_prop statusJson ''blocking'' = None
           \<or> (\<exists>b. js_prop statusJson ''blocking'' = Some (JBool b))"
  shows "fst (PiHoleStats_fetchData net toFixed1 updateChart opts d) = None
       \<and> (js_prop (fst (snd (PiHoleStats_fetchData net toFixed1 updateChart opts d))) ''status''
             = Some (JStr ''disabled'')
            \<longleftrightarrow> js_prop statusJson ''blocking'' = Some (JBool False))
       \<and> (js_prop statusJson ''blocking'' \<noteq> Some (JBool False)
            \<longrightarrow> js_prop (fst (snd (PiHoleStats_fetchData net toFixed1 updateChart opts d)))
                  ''status'' = Some (JStr ''enabled''))
       \<and> (js_prop statusJson ''blocking'' = None
            \<longrightarrow> js_prop (fst (snd (PiHoleStats_fetchData net toFixed1 updateChart opts d)))
                  ''status'' = Some (JStr ''enabled''))"
proof -
  from merge_status_present [OF assms(4,5), of toFixed1] obtain d'
    where m: "merge_status toFixed1 summaryJson statusJson = (Inr d', [])"
      and st: "js_prop d' ''status''
               = Some (JStr (case js_prop statusJson ''blocking'' of
                               None \<Rightarrow> ''enabled''
                             | Some b \<Rightarrow> if truthy b then ''enabled'' else ''disabled''))"
    by blast
  have run: "PiHoleStats_fetchData net toFixed1 updateChart opts d
      = (None, d', sent0 @ [get_request (summaryUrl opts) (stat_headers sid),
                  get_request (statusUrl opts) (stat_headers sid)])"
    using assms(6)
    by (auto simp: PiHoleStats_fetchData_def PiHoleStats_try_fetched [OF assms(1,2,3)] m
          step_return_def)
  from assms(7) show ?thesis
  proof (elim disjE exE)
    assume "js_prop statusJson ''blocking'' = None"
    then show ?thesis by (simp add: run st)
  next
    fix b
    assume "js_prop statusJson ''blocking'' = Some (JBool b)"
    then show ?thesis by (cases b) (simp_all add: run st)
  qed
qed

text \<open>
  The scenario of the specification: address \<^verbatim>\<open>http://pihole.local\<close>, secret
  \<^verbatim>\<open>s3cr3t\<close>, a summary with the four fields, \<^verbatim>\<open>{blocking: false}\<close>.
\<close>

theorem status_from_blocking_witness:
  "fst (PiHoleStats_fetchData
          (appliance (session_reply (JStr ''abc'') True [])
             (stats_routes full_summary (JObj [(''blocking'', JBool False)])))
          one_decimal chart_ready pihole_local (JObj [])) = None
   \<and> js_prop (fst (snd (PiHoleStats_fetchData
          (appliance (session_reply (JStr ''abc'') True [])
             (stats_routes full_summary (JObj [(''blocking'', JBool False)])))
          one_decimal chart_ready pihole_local (JObj [])))) ''status''
       = Some (JStr ''disabled'')"
proof -
  have h5: "JObj [(''blocking'', JBool False)] \<noteq> JNull" by simp
  have h6: "hideChart pihole_local \<or> (\<forall>d'. (chart_ready :: json \<Rightarrow> error option) d' = None)"
    by (simp add: hideChart_pihole_local)
  have h7: "js_prop (JObj [(''blocking'', JBool False)]) ''blocking'' = None
           \<or> (\<exists>b. js_prop (JObj [(''blocking'', JBool False)]) ''blocking'' = Some (JBool b))"
    by (intro disjI2 exI [of _ False]) simp
  have b: "js_prop (JObj [(''blocking'', JBool False)]) ''blocking'' = Some (JBool False)"
    by simp
  from status_from_blocking [OF authenticate_appliance appliance_summary appliance_status
      full_summary_present h5 h6 h7, of one_decimal "JObj []"] b
  show ?thesis by blast
qed

section \<open>No secret, no login\<close>

text \<open>
  Claim C9. With a secret that is absent or the empty string, authentication returns the
  token none at once and issues no request. The cycle then sends its statistics requests
  and nothing else: the top-domains widget the blocked ranking and, once that is answered,
  the allowed ranking; the status widget the summary and, once that is answered, the
  blocking status; the traffic widget the history. Each is a GET to an address other than
  the login address, with the \<open>Accept\<close> header only: no \<open>sid\<close> header is sent.
\<close>

theorem empty_secret_unauthenticated:
  assumes "apiKey opts = None \<or> apiKey opts = Some []"
  shows "authenticate msg net (baseUrl opts) (password opts) = (Inr JNull, [])
       \<and> snd (snd (PiHoleTopQueries_fetchData net opts d1))
           = get_request (blockedUrl opts) [(''Accept'', JStr ''application/json'')]
             # (if \<exists>b. net (get_request (blockedUrl opts) [(''Accept'', JStr ''application/json'')])
                         = Response True (Some b)
                then [get_request (allowedUrl opts) [(''Accept'', JStr ''application/json'')]]
                else [])
       \<and> snd (snd (PiHoleStats_fetchData net toFixed1 chart1 opts d2))
           = get_request (summaryUrl opts) [(''Accept'', JStr ''application/json'')]
             # (if \<exists>s. net (get_request (summaryUrl opts) [(''Accept'', JStr ''application/json'')])
                         = Response True (Some s)
                then [get_request (statusUrl opts) [(''Accept'', JStr ''application/json'')]]
                else [])
       \<and> snd (snd (PiHoleTraffic_fetchData net env chart2 opts d3))
           = [get_request (historyUrl opts) [(''Accept'', JStr ''application/json'')]]
       \<and> (\<forall>r \<in> set (snd (snd (PiHoleTopQueries_fetchData net opts d1))).
             url r \<noteq> baseUrl opts @ ''/api/auth'' \<and> http_method r = ''GET''
             \<and> headers r = [(''Accept'', JStr ''application/json'')])
       \<and> (\<forall>r \<in> set (snd (snd (PiHoleStats_fetchData net toFixed1 chart1 opts d2))).
             url r \<noteq> baseUrl opts @ ''/api/auth'' \<and> http_method r = ''GET''
             \<and> headers r = [(''Accept'', JStr ''application/json'')])
       \<and> (\<forall>r \<in> set (snd (snd (PiHoleTraffic_fetchData net env chart2 opts d3))).
             url r \<noteq> baseUrl opts @ ''/api/auth'' \<and> http_method r = ''GET''
             \<and> headers r = [(''Accept'', JStr ''application/json'')])"
proof -
  have pw: "password opts = []" using assms by (rule password_empty)
  have auth: "authenticate m net (baseUrl opts) (password opts) = (Inr JNull, [])" for m
    by (simp add: pw authenticate_no_secret)
  have hs: "stat_headers JNull = [(''Accept'', JStr ''application/json'')]"
    by (simp add: stat_headers_def)
  have top: "snd (snd (PiHoleTopQueries_fetchData net opts d1))
           = get_request (blockedUrl opts) [(''Accept'', JStr ''application/json'')]
             # (if \<exists>b. net (get_request (blockedUrl opts) [(''Accept'', JStr ''application/json'')])
                         = Response True (Some b)
                then [get_request (allowedUrl opts) [(''Accept'', JStr ''application/json'')]]
                else [])"
    using PiHoleTopQueries_sent_exact [OF auth, of d1] by (simp add: fetchData_sent hs)
  have stats: "snd (snd (PiHoleStats_fetchData net toFixed1 chart1 opts d2))
           = get_request (summaryUrl opts) [(''Accept'', JStr ''application/json'')]
             # (if \<exists>s. net (get_request (summaryUrl opts) [(''Accept'', JStr ''application/json'')])
                         = Response True (Some s)
                then [get_request (statusUrl opts) [(''Accept'', JStr ''application/json'')]]
                else [])"
    using PiHoleStats_sent_exact [OF auth, of toFixed1 chart1 d2] by (simp add: fetchData_sent hs)
  have traffic: "snd (snd (PiHoleTraffic_fetchData net env chart2 opts d3))
           = [get_request (historyUrl opts) [(''Accept'', JStr ''application/json'')]]"
    using PiHoleTraffic_sent_exact [OF auth, of env chart2 d3] by (simp add: fetchData_sent hs)
  have top_all: "\<forall>r \<in> set (snd (snd (PiHoleTopQueries_fetchData net opts d1))).
             url r \<noteq> baseUrl opts @ ''/api/auth'' \<and> http_method r = ''GET''
             \<and> headers r = [(''Accept'', JStr ''application/json'')]"
    unfolding top by (simp add: get_request_def blockedUrl_def allowedUrl_def)
  have stats_all: "\<forall>r \<in> set (snd (snd (PiHoleStats_fetchData net toFixed1 chart1 opts d2))).
             url r \<noteq> baseUrl opts @ ''/api/auth'' \<and> http_method r = ''GET''
             \<and> headers r = [(''Accept'', JStr ''application/json'')]"
    unfolding stats by (simp add: get_request_def summaryUrl_def statusUrl_def)
  have traffic_all: "\<forall>r \<in> set (snd (snd (PiHoleTraffic_fetchData net env chart2 opts d3))).
             url r \<noteq> baseUrl opts @ ''/api/auth'' \<and> http_method r = ''GET''
             \<and> headers r = [(''Accept'', JStr ''application/json'')]"
    unfolding traffic by (simp add: get_request_def historyUrl_def)
  show ?thesis
    by (intro conjI auth top stats traffic top_all stats_all traffic_all)
qed

text \<open>
  The three widgets without a secret, each against an appliance that answers: the requests
  sent are exactly the two rankings, the summary and the blocking status, and the history.
\<close>

theorem empty_secret_unauthenticated_witness:
  "(apiKey pihole_open = None \<or> apiKey pihole_open = Some [])
   \<and> authenticate ''Authentication failed: no session ID''
        (appliance JNull (top_routes (JObj []) (JObj [])))
        (baseUrl pihole_open) (password pihole_open) = (Inr JNull, [])
   \<and> snd (snd (PiHoleTopQueries_fetchData (appliance JNull (top_routes (JObj []) (JObj [])))
               pihole_open \<lparr>top_ads = JObj [], top_queries = JObj []\<rparr>))
       = [get_request ''http://pihole.local/api/stats/top_domains?blocked=true&count=10''
            [(''Accept'', JStr ''application/json'')],
          get_request ''http://pihole.local/api/stats/top_domains?blocked=false&count=10''
            [(''Accept'', JStr ''application/json'')]]
   \<and> snd (snd (PiHoleStats_fetchData
               (appliance JNull (stats_routes full_summary (JObj [(''blocking'', JBool True)])))
               one_decimal chart_ready pihole_open (JObj [])))
       = [get_request ''http://pihole.local/api/stats/summary''
            [(''Accept'', JStr ''application/json'')],
          get_request ''http://pihole.local/api/dns/blocking''
            [(''Accept'', JStr ''application/json'')]]
   \<and> snd (snd (PiHoleTraffic_fetchData (appliance JNull (history_routes (history_of [] [])))
               (utc_clock 0) chart_ready pihole_open
               \<lparr>labels = [], queriesData = JArr [], blockedData = JArr []\<rparr>))
       = [get_request ''http://pihole.local/api/history''
            [(''Accept'', JStr ''application/json'')]]"
proof -
  have h: "apiKey pihole_open = None \<or> apiKey pihole_open = Some []"
    by (simp add: pihole_open_simps)
  note top = empty_secret_unauthenticated [OF h,
      of "''Authentication failed: no session ID''"
         "appliance JNull (top_routes (JObj []) (JObj []))"
         "\<lparr>top_ads = JObj [], top_queries = JObj []\<rparr>" one_decimal chart_ready "JObj []"
         "utc_clock 0" chart_ready "\<lparr>labels = [], queriesData = JArr [], blockedData = JArr []\<rparr>"]
  note stats = empty_secret_unauthenticated [OF h,
      of "''Authentication failed: no session ID''"
         "appliance JNull (stats_routes full_summary (JObj [(''blocking'', JBool True)]))"
         "\<lparr>top_ads = JObj [], top_queries = JObj []\<rparr>" one_decimal chart_ready "JObj []"
         "utc_clock 0" chart_ready "\<lparr>labels = [], queriesData = JArr [], blockedData = JArr []\<rparr>"]
  note traffic = empty_secret_unauthenticated [OF h,
      of "''Authentication failed: no session ID''"
         "appliance JNull (history_routes (history_of [] []))"
         "\<lparr>top_ads = JObj [], top_queries = JObj []\<rparr>" one_decimal chart_ready "JObj []"
         "utc_clock 0" chart_ready "\<lparr>labels = [], queriesData = JArr [], blockedData = JArr []\<rparr>"]
  have a: "authenticate ''Authentication failed: no session ID''
        (appliance JNull (top_routes (JObj []) (JObj [])))
        (baseUrl pihole_open) (password pihole_open) = (Inr JNull, [])"
    using top by (elim conjE)
  have t: "snd (snd (PiHoleTopQueries_fetchData (appliance JNull (top_routes (JObj []) (JObj [])))
               pihole_open \<lparr>top_ads = JObj [], top_queries = JObj []\<rparr>))
       = [get_request ''http://pihole.local/api/stats/top_domains?blocked=true&count=10''
            [(''Accept'', JStr ''application/json'')],
          get_request ''http://pihole.local/api/stats/top_domains?blocked=false&count=10''
            [(''Accept'', JStr ''application/json'')]]"
    using top [THEN conjunct2, THEN conjunct1]
    by (simp add: pihole_open_urls appliance_blocked)
       (simp add: blockedUrl_pihole_local allowedUrl_pihole_local)
  have s: "snd (snd (PiHoleStats_fetchData
               (appliance JNull (stats_routes full_summary (JObj [(''blocking'', JBool True)])))
               one_decimal chart_ready pihole_open (JObj [])))
       = [get_request ''http://pihole.local/api/stats/summary''
            [(''Accept'', JStr ''application/json'')],
          get_request ''http://pihole.local/api/dns/blocking''
            [(''Accept'', JStr ''application/json'')]]"
    using stats [THEN conjunct2, THEN conjunct2, THEN conjunct1]
    by (simp add: pihole_open_urls appliance_summary)
       (simp add: summaryUrl_pihole_local statusUrl_pihole_local)
  have r: "snd (snd (PiHoleTraffic_fetchData (appliance JNull (history_routes (history_of [] [])))
               (utc_clock 0) chart_ready pihole_open
               \<lparr>labels = [], queriesData = JArr [], blockedData = JArr []\<rparr>))
       = [get_request ''http://pihole.local/api/history''
            [(''Accept'', JStr ''application/json'')]]"
    using traffic [THEN conjunct2, THEN conjunct2, THEN conjunct2, THEN conjunct1]
    by (simp add: pihole_open_urls historyUrl_pihole_local)
  show ?thesis by (intro conjI h a t s r)
qed

end
